theory Spec2Isabelle
  imports Main "HOL-Library.Word"
begin

section \<open>RADIUS splash-page authentication server (server.js)\<close>

text \<open>
  The development embeds the authentication path of \<^verbatim>\<open>server.js\<close>: the configuration
  constants read from the process environment, the handler of \<^verbatim>\<open>POST /auth/radius\<close>
  and the function \<^verbatim>\<open>authenticateWithRadius\<close> with its socket, timer and promise.
  The npm package \<^verbatim>\<open>radius\<close> (its \<^verbatim>\<open>encode\<close> and \<^verbatim>\<open>decode\<close>) and the Node runtime
  are outside the repository: the two codec functions are parameters of the model, with
  exactly the arguments the call sites pass, and the runtime appears as the list of
  events it delivers to the callbacks that the code registers.
\<close>

subsection \<open>JavaScript values\<close>

text \<open>
  The values a JSON request body and a decoded attribute can hold. Numbers are the
  integers: a body parsed from JSON holds no \<^verbatim>\<open>NaN\<close>, and a fraction is truthy like
  any other number that is not zero.
\<close>

type_synonym byte = "8 word"

datatype jsval =
    Undefined
  | Null
  | JBool bool
  | JNum int
  | JStr string
  | JArr "jsval list"
  | JObj "(string \<times> jsval) list"

text \<open>Truthiness, as \<^verbatim>\<open>!x\<close>, \<^verbatim>\<open>x || d\<close> and \<^verbatim>\<open>c ? a : b\<close> test it.\<close>

fun truthy :: "jsval \<Rightarrow> bool" where
  "truthy Undefined = False"
| "truthy Null = False"
| "truthy (JBool b) = b"
| "truthy (JNum n) = (n \<noteq> 0)"
| "truthy (JStr s) = (s \<noteq> [])"
| "truthy (JArr _) = True"
| "truthy (JObj _) = True"

text \<open>\<^verbatim>\<open>v === s\<close> for a string \<open>s\<close>: no coercion, so only the same string is equal.\<close>

fun strict_eq_string :: "jsval \<Rightarrow> string \<Rightarrow> bool" where
  "strict_eq_string (JStr t) s = (t = s)"
| "strict_eq_string _ s = False"

subsection \<open>Configuration constants (lines 22--33)\<close>

type_synonym environment = "string \<rightharpoonup> string"

text \<open>\<^verbatim>\<open>process.env.NAME || dflt\<close>: an unset or empty variable gives the default.\<close>

definition env_or :: "environment \<Rightarrow> string \<Rightarrow> string \<Rightarrow> string" where
  "env_or env name dflt =
     (case env name of
        None \<Rightarrow> dflt
      | Some v \<Rightarrow> if v = [] then dflt else v)"

text \<open>
  \<^verbatim>\<open>parseInt(s)\<close> without a radix: leading white space is skipped (the ASCII white
  space characters here), then an optional sign, then an optional \<^verbatim>\<open>0x\<close> prefix that
  selects base 16, then the longest run of digits; no digit at all gives \<^verbatim>\<open>NaN\<close>, which
  is \<open>None\<close>. The value is exact (a double is exact up to \<open>2^53\<close>).
\<close>

definition is_space :: "char \<Rightarrow> bool" where
  "is_space c = (c \<in> set [CHR '' '', CHR 0x09, CHR 0x0A, CHR 0x0B, CHR 0x0C, CHR 0x0D])"

definition digit_value :: "char \<Rightarrow> nat option" where
  "digit_value c =
     (let n = of_char c :: nat in
      if 48 \<le> n \<and> n \<le> 57 then Some (n - 48)
      else if 97 \<le> n \<and> n \<le> 102 then Some (n - 87)
      else if 65 \<le> n \<and> n \<le> 70 then Some (n - 55)
      else None)"

definition is_digit :: "nat \<Rightarrow> char \<Rightarrow> bool" where
  "is_digit radix c = (case digit_value c of None \<Rightarrow> False | Some d \<Rightarrow> d < radix)"

definition digits_value :: "nat \<Rightarrow> string \<Rightarrow> int" where
  "digits_value radix ds =
     foldl (\<lambda>acc c. acc * int radix + int (case digit_value c of None \<Rightarrow> 0 | Some d \<Rightarrow> d)) 0 ds"

definition parseInt :: "string \<Rightarrow> int option" where
  "parseInt s =
     (let s1 = dropWhile is_space s;
          neg = (s1 \<noteq> [] \<and> hd s1 = CHR ''-'');
          s2 = (if s1 \<noteq> [] \<and> (hd s1 = CHR ''-'' \<or> hd s1 = CHR ''+'') then tl s1 else s1);
          hex = (take 2 s2 = ''0x'' \<or> take 2 s2 = ''0X'');
          radix = (if hex then 16 else 10);
          s3 = (if hex then drop 2 s2 else s2);
          ds = takeWhile (is_digit radix) s3
      in if ds = [] then None
         else Some ((if neg then - 1 else 1) * digits_value radix ds))"

record config =
  RADIUS_HOST :: string
  RADIUS_PORT :: "int option"
  RADIUS_SECRET :: string
  ALLOWED_FILTER_ID :: string
  ACCESS_DENIED_MESSAGE :: string

text \<open>The top-level \<^verbatim>\<open>const\<close> declarations, evaluated once when the module is loaded.\<close>

definition load_config :: "environment \<Rightarrow> config" where
  "load_config env =
     \<lparr> RADIUS_HOST = env_or env ''RADIUS_HOST'' ''192.168.1.108'',
       RADIUS_PORT = parseInt (env_or env ''RADIUS_PORT'' ''1812''),
       RADIUS_SECRET = env_or env ''RADIUS_SECRET'' ''testing123'',
       ALLOWED_FILTER_ID = env_or env ''ALLOWED_FILTER_ID'' ''StaffPolicy'',
       ACCESS_DENIED_MESSAGE = env_or env ''ACCESS_DENIED_MESSAGE'' ''You don't belong to this SSID'' \<rparr>"

text \<open>The timeout is the literal \<^verbatim>\<open>10000\<close> passed to \<^verbatim>\<open>setTimeout\<close> (line 307).\<close>

definition REQUEST_TIMEOUT_MS :: nat where
  "REQUEST_TIMEOUT_MS = 10000"

subsection \<open>The codec interface\<close>

text \<open>
  The object literal built at lines 268--277 and passed, with the secret, to
  \<^verbatim>\<open>radius.encode\<close>.
\<close>

record packet =
  code :: string
  packet_identifier :: byte
  attributes :: "(string \<times> jsval) list"

text \<open>
  The object \<^verbatim>\<open>radius.decode\<close> returns: the handler reads \<^verbatim>\<open>code\<close> and
  \<^verbatim>\<open>attributes\<close>; the identifier and the authenticator are the header fields of the
  datagram (bytes 1 and 4--19), which the handler never reads.
\<close>

record response =
  response_code :: string
  response_identifier :: byte
  response_authenticator :: "byte list"
  response_attributes :: "(string \<rightharpoonup> jsval) option"

text \<open>
  \<^verbatim>\<open>radius.encode({...packet, secret})\<close> and \<^verbatim>\<open>radius.decode({packet, secret})\<close>: a
  thrown \<^verbatim>\<open>Error\<close> is \<open>Inl\<close> of its message.
\<close>

type_synonym encoder = "packet \<Rightarrow> string \<Rightarrow> string + byte list"
type_synonym decoder = "byte list \<Rightarrow> string \<Rightarrow> string + response"

subsection \<open>One authentication attempt (authenticateWithRadius, lines 205--336)\<close>

text \<open>What the promise is resolved with.\<close>

record auth_result =
  success :: bool
  filterId :: jsval
  message :: "string option"

datatype outcome = Resolved auth_result | Rejected string

text \<open>Calls on the socket, the timer and the promise, in the order they are made.\<close>

datatype effect =
    CreateSocket
  | Send "byte list" "int option" string
  | SetTimeout nat
  | ClearTimeout
  | RemoveAllListeners
  | Close
  | CallResolve auth_result
  | CallReject string

text \<open>
  The variables of the closure (\<open>clientClosed\<close>, \<open>timeoutId\<close>, the \<open>packet\<close> of the
  \<^verbatim>\<open>try\<close> block), the state of the promise (\<open>settled\<close>), and what the runtime holds for
  the attempt: whether the timer is still pending and whether the socket still has its
  two listeners.
\<close>

record attempt =
  clientClosed :: bool
  timeoutId :: bool
  timer_pending :: bool
  listening :: bool
  settled :: "outcome option"
  request :: "packet option"
  effects :: "effect list"

text \<open>A promise keeps its first settlement; a later call of either function changes nothing.\<close>

definition resolve :: "auth_result \<Rightarrow> attempt \<Rightarrow> attempt" where
  "resolve r st =
     st\<lparr> settled := (case settled st of None \<Rightarrow> Some (Resolved r) | Some out \<Rightarrow> Some out),
         effects := effects st @ [CallResolve r] \<rparr>"

definition reject :: "string \<Rightarrow> attempt \<Rightarrow> attempt" where
  "reject e st =
     st\<lparr> settled := (case settled st of None \<Rightarrow> Some (Rejected e) | Some out \<Rightarrow> Some out),
         effects := effects st @ [CallReject e] \<rparr>"

text \<open>Lines 316--321.\<close>

definition clearTimeoutSafely :: "attempt \<Rightarrow> attempt" where
  "clearTimeoutSafely st =
     (if timeoutId st
      then st\<lparr> timeoutId := False, timer_pending := False,
               effects := effects st @ [ClearTimeout] \<rparr>
      else st)"

text \<open>
  Lines 324--334. The flag is set before the two calls on the socket; an exception of
  either call is caught and logged, so the function always returns.
\<close>

definition closeSafely :: "attempt \<Rightarrow> attempt" where
  "closeSafely st =
     (if clientClosed st then st
      else st\<lparr> clientClosed := True, listening := False,
               effects := effects st @ [RemoveAllListeners, Close] \<rparr>)"

text \<open>Lines 248--250: the Filter-Id of an Access-Accept, or \<^verbatim>\<open>null\<close>.\<close>

definition extract_filterId :: "response \<Rightarrow> jsval" where
  "extract_filterId resp =
     (case response_attributes resp of
        None \<Rightarrow> Null
      | Some attrs \<Rightarrow>
          (case attrs ''Filter-Id'' of
             None \<Rightarrow> Null
           | Some v \<Rightarrow> if truthy v then v else Null))"

text \<open>The \<^verbatim>\<open>'message'\<close> listener (lines 223--264).\<close>

definition on_message :: "decoder \<Rightarrow> config \<Rightarrow> byte list \<Rightarrow> attempt \<Rightarrow> attempt" where
  "on_message decode cfg msg st =
     (if clientClosed st then st
      else
        let st1 = clearTimeoutSafely st in
        case decode msg (RADIUS_SECRET cfg) of
          Inr resp \<Rightarrow>
            let st2 = closeSafely st1 in
            if response_code resp = ''Access-Accept''
            then resolve \<lparr> success = True, filterId = extract_filterId resp, message = None \<rparr> st2
            else resolve \<lparr> success = False, filterId = Undefined,
                           message = Some ''Authentication failed. Please check your credentials.'' \<rparr> st2
        | Inl err \<Rightarrow>
            reject (''Failed to process authentication response: '' @ err) (closeSafely st1))"

text \<open>The \<^verbatim>\<open>'error'\<close> listener (lines 213--220).\<close>

definition on_error :: "string \<Rightarrow> attempt \<Rightarrow> attempt" where
  "on_error err st =
     (if \<not> clientClosed st
      then reject (''Network error: '' @ err) (closeSafely (clearTimeoutSafely st))
      else st)"

text \<open>The callback of \<^verbatim>\<open>client.send\<close> (lines 286--300); \<open>None\<close> is a successful send.\<close>

definition send_callback :: "string option \<Rightarrow> attempt \<Rightarrow> attempt" where
  "send_callback err st =
     (case err of
        Some e \<Rightarrow>
          reject (''Failed to send authentication request: '' @ e)
            (closeSafely (clearTimeoutSafely st))
      | None \<Rightarrow> st)"

text \<open>The callback of \<^verbatim>\<open>setTimeout\<close> (lines 303--307).\<close>

definition on_timeout :: "attempt \<Rightarrow> attempt" where
  "on_timeout st =
     resolve \<lparr> success = False, filterId = Undefined,
               message = Some ''Authentication server timed out'' \<rparr> (closeSafely st)"

text \<open>
  What the runtime may deliver: a datagram, a socket error, the completion of the send,
  the expiry of the timer. A listener runs only while it is registered, and a timer fires
  only while it is pending and then never again.
\<close>

datatype event =
    Message "byte list"
  | SocketError string
  | SendDone "string option"
  | TimerExpired

fun deliver :: "decoder \<Rightarrow> config \<Rightarrow> attempt \<Rightarrow> event \<Rightarrow> attempt" where
  "deliver decode cfg st (Message msg) =
     (if listening st then on_message decode cfg msg st else st)"
| "deliver decode cfg st (SocketError err) =
     (if listening st then on_error err st else st)"
| "deliver decode cfg st (SendDone err) = send_callback err st"
| "deliver decode cfg st TimerExpired =
     (if timer_pending st then on_timeout (st\<lparr> timer_pending := False \<rparr>) else st)"

definition run :: "decoder \<Rightarrow> config \<Rightarrow> attempt \<Rightarrow> event list \<Rightarrow> attempt" where
  "run decode cfg st evs = foldl (deliver decode cfg) st evs"

text \<open>The object literal of lines 268--277.\<close>

definition request_packet :: "byte \<Rightarrow> jsval \<Rightarrow> jsval \<Rightarrow> packet" where
  "request_packet ident username password =
     \<lparr> code = ''Access-Request'', packet_identifier = ident,
       attributes = [(''User-Name'', username), (''User-Password'', password),
                     (''NAS-IP-Address'', JStr ''127.0.0.1''), (''NAS-Port'', JNum 0)] \<rparr>"

text \<open>
  The body of the promise executor up to its end (lines 208--313). \<open>ident\<close> is the value
  of \<^verbatim>\<open>Math.floor(Math.random() * 256)\<close>; \<open>thrown\<close> is the exception that
  \<^verbatim>\<open>client.send\<close> raises at the call, if it raises one (it validates the port).
\<close>

definition start :: "encoder \<Rightarrow> config \<Rightarrow> byte \<Rightarrow> string option \<Rightarrow> jsval \<Rightarrow> jsval \<Rightarrow> attempt" where
  "start encode cfg ident thrown username password =
     (let st0 = \<lparr> clientClosed = False, timeoutId = False, timer_pending = False,
                  listening = True, settled = None, request = None,
                  effects = [CreateSocket] \<rparr>;
          pkt = request_packet ident username password;
          st1 = st0\<lparr> request := Some pkt \<rparr>
      in case encode pkt (RADIUS_SECRET cfg) of
           Inl err \<Rightarrow>
             reject (''Failed to create authentication request: '' @ err) (closeSafely st1)
         | Inr encoded \<Rightarrow>
             (case thrown of
                Some err \<Rightarrow>
                  reject (''Failed to create authentication request: '' @ err) (closeSafely st1)
              | None \<Rightarrow>
                  st1\<lparr> timeoutId := True, timer_pending := True,
                       effects := effects st1 @
                         [Send encoded (RADIUS_PORT cfg) (RADIUS_HOST cfg),
                          SetTimeout REQUEST_TIMEOUT_MS] \<rparr>))"

text \<open>What the runtime contributes to one attempt.\<close>

record world =
  random_identifier :: byte
  send_throws :: "string option"
  events :: "event list"

definition authenticateWithRadius ::
  "encoder \<Rightarrow> decoder \<Rightarrow> config \<Rightarrow> world \<Rightarrow> jsval \<Rightarrow> jsval \<Rightarrow> attempt" where
  "authenticateWithRadius encode decode cfg w username password =
     run decode cfg
       (start encode cfg (random_identifier w) (send_throws w) username password)
       (events w)"

subsection \<open>The handler of POST /auth/radius (lines 127--202)\<close>

record http_response =
  res_status :: nat
  res_success :: bool
  res_message :: string
  res_filterId :: "jsval option"
  res_validation :: "(string \<times> string) option"

text \<open>Lines 153--190: the response for a fulfilled promise.\<close>

definition respond :: "config \<Rightarrow> environment \<Rightarrow> auth_result \<Rightarrow> http_response" where
  "respond cfg env result =
     (if success result then
        (if strict_eq_string (filterId result) (ALLOWED_FILTER_ID cfg) then
           (let ACCESS_GRANTED_MESSAGE =
                  env_or env ''ACCESS_GRANTED_MESSAGE'' ''Access granted - Account verified''
            in \<lparr> res_status = 200, res_success = True,
                 res_message = ''Authentication successful'',
                 res_filterId = Some (filterId result),
                 res_validation = Some (''success'', ACCESS_GRANTED_MESSAGE) \<rparr>)
         else
           \<lparr> res_status = 403, res_success = False,
             res_message = ACCESS_DENIED_MESSAGE cfg,
             res_filterId = Some (filterId result),
             res_validation = Some (''error'', ''Access denied - '' @ ACCESS_DENIED_MESSAGE cfg) \<rparr>)
      else
        \<lparr> res_status = 401, res_success = False,
          res_message = (case message result of
                           None \<Rightarrow> ''Authentication failed''
                         | Some m \<Rightarrow> if m = [] then ''Authentication failed'' else m),
          res_filterId = None, res_validation = None \<rparr>)"

text \<open>Lines 191--197: the \<^verbatim>\<open>catch\<close> block, reached when the awaited promise is rejected.\<close>

definition server_error :: http_response where
  "server_error =
     \<lparr> res_status = 500, res_success = False,
       res_message = ''Server error during authentication'',
       res_filterId = None, res_validation = None \<rparr>"

definition body_field :: "(string \<rightharpoonup> jsval) \<Rightarrow> string \<Rightarrow> jsval" where
  "body_field body name = (case body name of None \<Rightarrow> Undefined | Some v \<Rightarrow> v)"

text \<open>
  The handler. It is given the configuration of the module, the environment as it is when
  the request is handled, and the request body. The result is the response, if one is
  sent (\<open>None\<close> while the awaited promise is pending), and the attempt, if one was
  started.
\<close>

definition auth_radius ::
  "encoder \<Rightarrow> decoder \<Rightarrow> config \<Rightarrow> environment \<Rightarrow> world \<Rightarrow> (string \<rightharpoonup> jsval)
     \<Rightarrow> http_response option \<times> attempt option" where
  "auth_radius encode decode cfg env w body =
     (let username = body_field body ''username'';
          password = body_field body ''password''
      in if \<not> truthy username \<or> \<not> truthy password then
           (Some \<lparr> res_status = 400, res_success = False,
                   res_message = ''Username and password are required'',
                   res_filterId = None, res_validation = None \<rparr>, None)
         else
           (let st = authenticateWithRadius encode decode cfg w username password
            in (case settled st of
                  None \<Rightarrow> None
                | Some (Resolved result) \<Rightarrow> Some (respond cfg env result)
                | Some (Rejected e) \<Rightarrow> Some server_error,
                Some st)))"

subsection \<open>Counting calls in a trace of effects\<close>

fun is_send :: "effect \<Rightarrow> bool" where
  "is_send (Send _ _ _) = True"
| "is_send _ = False"

definition sockets_opened :: "attempt \<Rightarrow> nat" where
  "sockets_opened st = count_list (effects st) CreateSocket"

definition sockets_closed :: "attempt \<Rightarrow> nat" where
  "sockets_closed st = count_list (effects st) Close"

definition sends :: "attempt \<Rightarrow> nat" where
  "sends st = length (filter is_send (effects st))"

text \<open>
  The states an attempt can be in: either the promise is pending, the socket is open with
  its listeners and the timer is pending; or the promise is settled, the socket closed,
  the listeners removed and no timer pending. In both, \<^verbatim>\<open>client.close()\<close> has been
  called once if \<open>clientClosed\<close> is set and never otherwise.
\<close>

definition consistent :: "attempt \<Rightarrow> bool" where
  "consistent st =
     ((case settled st of
         None \<Rightarrow> \<not> clientClosed st \<and> listening st \<and> timer_pending st \<and> timeoutId st
       | Some out \<Rightarrow> clientClosed st \<and> \<not> listening st \<and> \<not> timer_pending st) \<and>
      sockets_closed st = (if clientClosed st then 1 else 0))"

text \<open>A decoded response without a Filter-Id: no attribute object, or no such key in it.\<close>

definition lacks_filterId :: "response \<Rightarrow> bool" where
  "lacks_filterId resp =
     (case response_attributes resp of
        None \<Rightarrow> True
      | Some attrs \<Rightarrow> attrs ''Filter-Id'' = None)"

subsection \<open>The response authenticator of the protocol\<close>

text \<open>
  Modelled from the spec: the check of section 4.1, ``recomputes the response
  authenticator from the response body, the original request authenticator, and the
  shared secret''. server.js has no counterpart of it; it is stated here so that a claim
  about it can be compared with the handler. The digest is a parameter (the protocol
  uses MD5 over code, identifier, length, request authenticator, attributes and secret);
  the request authenticator is bytes 4--19 of the datagram that was sent.
\<close>

definition request_authenticator :: "byte list \<Rightarrow> byte list" where
  "request_authenticator encoded = take 16 (drop 4 encoded)"

definition recomputed_authenticator ::
  "(byte list \<Rightarrow> byte list) \<Rightarrow> string \<Rightarrow> byte list \<Rightarrow> byte list \<Rightarrow> byte list" where
  "recomputed_authenticator digest secret req_auth msg =
     digest (take 4 msg @ req_auth @ drop 20 msg @ map (\<lambda>c. of_nat (of_char c)) secret)"

definition authenticator_matches ::
  "(byte list \<Rightarrow> byte list) \<Rightarrow> string \<Rightarrow> byte list \<Rightarrow> byte list \<Rightarrow> bool" where
  "authenticator_matches digest secret req_auth msg =
     (take 16 (drop 4 msg) = recomputed_authenticator digest secret req_auth msg)"

subsection \<open>A codec for concrete runs\<close>

text \<open>
  Modelled from the spec: the package \<^verbatim>\<open>radius\<close> is not part of the repository, so
  concrete runs use a decoder written from the wire format of section 6 (code: 1 byte,
  identifier: 1 byte, length: 2 bytes, authenticator: 16 bytes, then attributes as
  type, length, value), with the codes of section 4.1 (2 is Access-Accept, 3 is
  Access-Reject, any other code is an error) and the one response attribute the server
  reads, Filter-Id (type 11), as text. It receives what the call at line 231 passes: the
  datagram and the secret. The theorems about the handler hold for every decoder of
  that type; this one only supplies concrete inputs.
\<close>

function parse_attributes :: "byte list \<Rightarrow> (string \<rightharpoonup> jsval) \<Rightarrow> (string \<rightharpoonup> jsval) option" where
  "parse_attributes [] m = Some m"
| "parse_attributes [t] m = None"
| "parse_attributes (t # l # rest) m =
     (let n = unat l in
      if n < 2 \<or> length rest < n - 2 then None
      else parse_attributes (drop (n - 2) rest)
             (if t = 11
              then m(''Filter-Id'' \<mapsto> JStr (map (\<lambda>b. char_of (unat b)) (take (n - 2) rest)))
              else m))"
  by pat_completeness auto
termination
  by (relation "measure (\<lambda>(bs, m). length bs)") auto

definition wire_decode :: decoder where
  "wire_decode msg secret =
     (if length msg < 20 then Inl ''MalformedPacket''
      else
        let len = 256 * unat (msg ! 2) + unat (msg ! 3) in
        if len < 20 \<or> length msg < len then Inl ''MalformedPacket''
        else if msg ! 0 \<noteq> 2 \<and> msg ! 0 \<noteq> 3 then Inl ''UnexpectedCode''
        else
          (case parse_attributes (take (len - 20) (drop 20 msg)) Map.empty of
             None \<Rightarrow> Inl ''MalformedPacket''
           | Some attrs \<Rightarrow>
               Inr \<lparr> response_code = (if msg ! 0 = 2 then ''Access-Accept'' else ''Access-Reject''),
                     response_identifier = msg ! 1,
                     response_authenticator = take 16 (drop 4 msg),
                     response_attributes = Some attrs \<rparr>))"

text \<open>
  Modelled from the spec: an encoder for concrete runs, as far as the attempt observes
  one. By section 4.1 encoding fails when the secret is empty or when the username or
  the password is longer than 253 bytes; otherwise it yields a datagram whose header
  carries the code of an Access-Request (1) and the identifier of the request. The
  attributes and the authenticator, which need the digest, are left out: the datagram
  is the 20-byte header with a zero authenticator.
\<close>

fun too_long :: "jsval \<Rightarrow> bool" where
  "too_long (JStr s) = (253 < length s)"
| "too_long _ = False"

definition header_encode :: encoder where
  "header_encode pkt secret =
     (if secret = [] \<or> (\<exists>(name, v) \<in> set (attributes pkt).
           (name = ''User-Name'' \<or> name = ''User-Password'') \<and> too_long v)
      then Inl ''EncodeError''
      else Inr ([1, packet_identifier pkt, 0, 20] @ replicate 16 0))"

text \<open>Datagrams for concrete runs: identifier, authenticator and Filter-Id text are given.\<close>

definition access_accept :: "byte \<Rightarrow> byte list \<Rightarrow> string \<Rightarrow> byte list" where
  "access_accept ident auth fid =
     [2, ident, 0, of_nat (22 + length fid)] @ auth @
     [11, of_nat (2 + length fid)] @ map (\<lambda>c. of_nat (of_char c)) fid"

definition access_reject :: "byte \<Rightarrow> byte list \<Rightarrow> byte list" where
  "access_reject ident auth = [3, ident, 0, 20] @ auth"

subsection \<open>Fixtures for concrete runs\<close>

text \<open>The configuration of a process started with an empty environment.\<close>

definition default_config :: config where
  "default_config = load_config Map.empty"

text \<open>The request body of the scenarios of the specification.\<close>

definition alice_body :: "string \<rightharpoonup> jsval" where
  "alice_body = [''username'' \<mapsto> JStr ''alice'', ''password'' \<mapsto> JStr ''correct'']"

text \<open>An Access-Accept without attributes.\<close>

definition access_accept_plain :: "byte \<Rightarrow> byte list \<Rightarrow> byte list" where
  "access_accept_plain ident auth = [2, ident, 0, 20] @ auth"

subsection \<open>Which environment variables are read, and when\<close>

text \<open>
  Every \<^verbatim>\<open>process.env.NAME\<close> in server.js has the form \<^verbatim>\<open>process.env.NAME || dflt\<close>. The
  traced variants below are the same code with, beside each value, the names of the
  variables whose evaluation produced it, in the order they are read.
\<close>

definition env_or_traced :: "environment \<Rightarrow> string \<Rightarrow> string \<Rightarrow> string \<times> string list" where
  "env_or_traced env name dflt = (env_or env name dflt, [name])"

text \<open>Module load, lines 22--33: \<^verbatim>\<open>port\<close> and the five configuration constants.\<close>

definition load_config_traced :: "environment \<Rightarrow> config \<times> string list" where
  "load_config_traced env =
     (let (port, r0) = env_or_traced env ''PORT'' ''3000'';
          (host, r1) = env_or_traced env ''RADIUS_HOST'' ''192.168.1.108'';
          (radius_port, r2) = env_or_traced env ''RADIUS_PORT'' ''1812'';
          (secret, r3) = env_or_traced env ''RADIUS_SECRET'' ''testing123'';
          (allowed, r4) = env_or_traced env ''ALLOWED_FILTER_ID'' ''StaffPolicy'';
          (denied, r5) = env_or_traced env ''ACCESS_DENIED_MESSAGE'' ''You don't belong to this SSID''
      in (\<lparr> RADIUS_HOST = host, RADIUS_PORT = parseInt radius_port, RADIUS_SECRET = secret,
             ALLOWED_FILTER_ID = allowed, ACCESS_DENIED_MESSAGE = denied \<rparr>,
          r0 @ r1 @ r2 @ r3 @ r4 @ r5))"

text \<open>Lines 153--190, with the read of line 160.\<close>

definition respond_traced ::
  "config \<Rightarrow> environment \<Rightarrow> auth_result \<Rightarrow> http_response \<times> string list" where
  "respond_traced cfg env result =
     (if success result then
        (if strict_eq_string (filterId result) (ALLOWED_FILTER_ID cfg) then
           (let (ACCESS_GRANTED_MESSAGE, reads) =
                  env_or_traced env ''ACCESS_GRANTED_MESSAGE'' ''Access granted - Account verified''
            in (\<lparr> res_status = 200, res_success = True,
                  res_message = ''Authentication successful'',
                  res_filterId = Some (filterId result),
                  res_validation = Some (''success'', ACCESS_GRANTED_MESSAGE) \<rparr>, reads))
         else
           (\<lparr> res_status = 403, res_success = False,
              res_message = ACCESS_DENIED_MESSAGE cfg,
              res_filterId = Some (filterId result),
              res_validation = Some (''error'', ''Access denied - '' @ ACCESS_DENIED_MESSAGE cfg) \<rparr>,
            []))
      else
        (\<lparr> res_status = 401, res_success = False,
           res_message = (case message result of
                            None \<Rightarrow> ''Authentication failed''
                          | Some m \<Rightarrow> if m = [] then ''Authentication failed'' else m),
           res_filterId = None, res_validation = None \<rparr>, []))"



section \<open>Properties of one attempt\<close>

subsection \<open>The promise keeps its outcome; the closure stays consistent\<close>

lemmas handler_defs =
  resolve_def reject_def clearTimeoutSafely_def closeSafely_def
  on_message_def on_error_def send_callback_def on_timeout_def

lemma settled_deliver_stable:
  "settled st = Some out \<Longrightarrow> settled (deliver decode cfg st ev) = Some out"
  by (cases ev) (auto simp: handler_defs Let_def split: sum.splits option.splits)

lemma settled_run_stable:
  "settled st = Some out \<Longrightarrow> settled (run decode cfg st evs) = Some out"
  unfolding run_def
  by (induction evs arbitrary: st) (auto simp: settled_deliver_stable)

lemma consistent_start:
  "consistent (start encode cfg ident thr username password)"
  by (auto simp: start_def consistent_def sockets_closed_def handler_defs Let_def
           split: sum.splits option.splits)

lemma consistent_deliver:
  "consistent st \<Longrightarrow> consistent (deliver decode cfg st ev)"
  by (cases ev)
     (auto simp: consistent_def sockets_closed_def handler_defs Let_def
           split: sum.splits option.splits if_splits)

lemma consistent_run:
  "consistent st \<Longrightarrow> consistent (run decode cfg st evs)"
  unfolding run_def
  by (induction evs arbitrary: st) (auto simp: consistent_deliver)

lemma deliver_settled_noop:
  assumes "consistent st" "settled st = Some out"
  shows "deliver decode cfg st (Message m) = st"
    and "deliver decode cfg st (SocketError e) = st"
    and "deliver decode cfg st TimerExpired = st"
  using assms by (auto simp: consistent_def)

lemma run_send_done:
  "run decode cfg st (replicate n (SendDone None)) = st"
  unfolding run_def by (induction n) (auto simp: send_callback_def)

lemma run_append:
  "run decode cfg st (xs @ ys) = run decode cfg (run decode cfg st xs) ys"
  by (simp add: run_def)

lemma run_Cons:
  "run decode cfg st (ev # evs) = run decode cfg (deliver decode cfg st ev) evs"
  by (simp add: run_def)

lemma sockets_opened_deliver:
  "sockets_opened (deliver decode cfg st ev) = sockets_opened st"
  by (cases ev)
     (auto simp: sockets_opened_def handler_defs Let_def split: sum.splits option.splits)

lemma sockets_opened_run:
  "sockets_opened (run decode cfg st evs) = sockets_opened st"
  unfolding run_def
  by (induction evs arbitrary: st) (auto simp: sockets_opened_deliver)

lemma sends_deliver:
  "sends (deliver decode cfg st ev) = sends st"
  by (cases ev)
     (auto simp: sends_def handler_defs Let_def split: sum.splits option.splits)

lemma sends_run:
  "sends (run decode cfg st evs) = sends st"
  unfolding run_def
  by (induction evs arbitrary: st) (auto simp: sends_deliver)

subsection \<open>What each callback does to a pending attempt\<close>

lemma start_sent:
  assumes "encode (request_packet ident u p) (RADIUS_SECRET cfg) = Inr encoded"
  shows "start encode cfg ident None u p =
     \<lparr> clientClosed = False, timeoutId = True, timer_pending = True, listening = True,
       settled = None, request = Some (request_packet ident u p),
       effects = [CreateSocket, Send encoded (RADIUS_PORT cfg) (RADIUS_HOST cfg),
                  SetTimeout REQUEST_TIMEOUT_MS] \<rparr>"
  using assms by (simp add: start_def Let_def)

lemma start_pending:
  assumes "encode (request_packet ident u p) (RADIUS_SECRET cfg) = Inr encoded"
  shows "settled (start encode cfg ident None u p) = None"
  using assms by (simp add: start_sent)

lemma start_encode_fails:
  assumes "encode (request_packet ident u p) (RADIUS_SECRET cfg) = Inl err"
  shows "settled (start encode cfg ident thrown u p) =
           Some (Rejected (''Failed to create authentication request: '' @ err))"
    and "sends (start encode cfg ident thrown u p) = 0"
  using assms by (simp_all add: start_def Let_def sends_def handler_defs)

lemma start_send_throws:
  assumes "encode (request_packet ident u p) (RADIUS_SECRET cfg) = Inr encoded"
  shows "settled (start encode cfg ident (Some err) u p) =
           Some (Rejected (''Failed to create authentication request: '' @ err))"
    and "sends (start encode cfg ident (Some err) u p) = 0"
  using assms by (simp_all add: start_def Let_def sends_def handler_defs)

lemma pending_open:
  "consistent st \<Longrightarrow> settled st = None \<Longrightarrow>
     \<not> clientClosed st \<and> listening st \<and> timer_pending st \<and> timeoutId st"
  by (simp add: consistent_def)

lemma deliver_message_pending:
  assumes "consistent st" "settled st = None"
  shows "settled (deliver decode cfg st (Message msg)) =
     Some (case decode msg (RADIUS_SECRET cfg) of
             Inl err \<Rightarrow> Rejected (''Failed to process authentication response: '' @ err)
           | Inr resp \<Rightarrow>
               Resolved (if response_code resp = ''Access-Accept''
                 then \<lparr> success = True, filterId = extract_filterId resp, message = None \<rparr>
                 else \<lparr> success = False, filterId = Undefined,
                        message = Some ''Authentication failed. Please check your credentials.'' \<rparr>))"
  using pending_open [OF assms] assms(2)
  by (simp add: handler_defs Let_def split: sum.splits)

lemma deliver_error_pending:
  assumes "consistent st" "settled st = None"
  shows "settled (deliver decode cfg st (SocketError e)) = Some (Rejected (''Network error: '' @ e))"
  using pending_open [OF assms] assms(2) by (simp add: handler_defs)

lemma deliver_send_failed_pending:
  assumes "settled st = None"
  shows "settled (deliver decode cfg st (SendDone (Some e))) =
           Some (Rejected (''Failed to send authentication request: '' @ e))"
  using assms by (simp add: handler_defs)

lemma deliver_timer_pending:
  assumes "consistent st" "settled st = None"
  shows "settled (deliver decode cfg st TimerExpired) =
           Some (Resolved \<lparr> success = False, filterId = Undefined,
                            message = Some ''Authentication server timed out'' \<rparr>)"
  using pending_open [OF assms] assms(2) by (simp add: handler_defs)

lemma deliver_settles:
  assumes "consistent st" "ev \<noteq> SendDone None"
  shows "settled (deliver decode cfg st ev) \<noteq> None"
proof (cases "settled st")
  case None
  show ?thesis
  proof (cases ev)
    case (Message m) then show ?thesis using deliver_message_pending [OF assms(1) None] by simp
  next
    case (SocketError e) then show ?thesis using deliver_error_pending [OF assms(1) None] by simp
  next
    case (SendDone e) then show ?thesis using assms(2) deliver_send_failed_pending [OF None] by (cases e) auto
  next
    case TimerExpired then show ?thesis using deliver_timer_pending [OF assms(1) None] by simp
  qed
next
  case (Some out)
  then show ?thesis by (simp add: settled_deliver_stable)
qed

lemma first_event_decides:
  assumes "settled (deliver decode cfg st ev) = Some out"
  shows "settled (run decode cfg st (replicate n (SendDone None) @ ev # evs)) = Some out"
  by (simp add: run_append run_send_done run_Cons settled_run_stable assms)

lemma events_split:
  "evs = replicate (length (takeWhile (\<lambda>e. e = SendDone None) evs)) (SendDone None)
           @ dropWhile (\<lambda>e. e = SendDone None) evs"
proof -
  have "takeWhile (\<lambda>e. e = SendDone None) evs =
          replicate (length (takeWhile (\<lambda>e. e = SendDone None) evs)) (SendDone None)"
    by (induction evs) auto
  then show ?thesis
    by (metis takeWhile_dropWhile_id)
qed

subsection \<open>The first event that is not a successful send completion decides\<close>

lemma consistent_attempt:
  "consistent (authenticateWithRadius encode decode cfg w u p)"
  by (simp add: authenticateWithRadius_def consistent_run consistent_start)

lemma attempt_sent:
  assumes "encode (request_packet (random_identifier w) u p) (RADIUS_SECRET cfg) = Inr encoded"
    and "send_throws w = None"
    and "events w = replicate n (SendDone None) @ ev # evs"
    and "settled (deliver decode cfg (start encode cfg (random_identifier w) None u p) ev) = Some out"
  shows "settled (authenticateWithRadius encode decode cfg w u p) = Some out"
  using assms(2,3,4) by (simp add: authenticateWithRadius_def first_event_decides)

lemma attempt_first_message:
  assumes "encode (request_packet (random_identifier w) u p) (RADIUS_SECRET cfg) = Inr encoded"
    and "send_throws w = None"
    and "events w = replicate n (SendDone None) @ Message msg # evs"
  shows "settled (authenticateWithRadius encode decode cfg w u p) =
     Some (case decode msg (RADIUS_SECRET cfg) of
             Inl err \<Rightarrow> Rejected (''Failed to process authentication response: '' @ err)
           | Inr resp \<Rightarrow>
               Resolved (if response_code resp = ''Access-Accept''
                 then \<lparr> success = True, filterId = extract_filterId resp, message = None \<rparr>
                 else \<lparr> success = False, filterId = Undefined,
                        message = Some ''Authentication failed. Please check your credentials.'' \<rparr>))"
proof -
  let ?st = "start encode cfg (random_identifier w) None u p"
  have "consistent ?st" by (rule consistent_start)
  moreover have "settled ?st = None" using assms(1) by (simp add: start_pending)
  ultimately have "settled (deliver decode cfg ?st (Message msg)) =
     Some (case decode msg (RADIUS_SECRET cfg) of
             Inl err \<Rightarrow> Rejected (''Failed to process authentication response: '' @ err)
           | Inr resp \<Rightarrow>
               Resolved (if response_code resp = ''Access-Accept''
                 then \<lparr> success = True, filterId = extract_filterId resp, message = None \<rparr>
                 else \<lparr> success = False, filterId = Undefined,
                        message = Some ''Authentication failed. Please check your credentials.'' \<rparr>))"
    by (rule deliver_message_pending)
  then show ?thesis
    using assms(2,3) by (simp add: authenticateWithRadius_def first_event_decides)
qed

section \<open>The claims\<close>

subsection \<open>C1: responses with a foreign identifier\<close>

text \<open>
  C1, as the code has it. The \<^verbatim>\<open>'message'\<close> listener passes the datagram and the secret
  to the decoder and nothing of the request, and it never reads the identifier of the
  decoded response. So a response whose identifier differs from the identifier of the
  outstanding Access-Request is not discarded: when it is the first datagram to arrive
  it is paired with the attempt, which is fulfilled as accepted (with the Filter-Id of
  the response) if its code is Access-Accept and as failed otherwise. This holds for
  every encoder and every decoder with the arguments of the two call sites.
\<close>

theorem foreign_identifier_is_paired:
  assumes "encode (request_packet ident u p) (RADIUS_SECRET cfg) = Inr encoded"
    and "decode msg (RADIUS_SECRET cfg) = Inr resp"
    and "response_identifier resp \<noteq> ident"
  shows "settled (authenticateWithRadius encode decode cfg
            \<lparr> random_identifier = ident, send_throws = None,
              events = replicate n (SendDone None) @ Message msg # evs \<rparr> u p) =
     Some (Resolved (if response_code resp = ''Access-Accept''
                 then \<lparr> success = True, filterId = extract_filterId resp, message = None \<rparr>
                 else \<lparr> success = False, filterId = Undefined,
                        message = Some ''Authentication failed. Please check your credentials.'' \<rparr>))"
  using assms(1,2)
  by (subst attempt_first_message [where encoded = encoded and n = n and msg = msg and evs = evs])
     simp_all

text \<open>
  An instance: the request has identifier 7, the Access-Accept that arrives after the
  send has completed has identifier 9.
\<close>

theorem foreign_identifier_is_paired_witness:
  "response_identifier (projr (wire_decode (access_accept 9 (replicate 16 0) ''StaffPolicy'')
       (RADIUS_SECRET default_config))) \<noteq> 7 \<and>
   settled (authenticateWithRadius header_encode wire_decode default_config
       \<lparr> random_identifier = 7, send_throws = None,
         events = replicate 1 (SendDone None) @
                  Message (access_accept 9 (replicate 16 0) ''StaffPolicy'') # [] \<rparr>
       (JStr ''alice'') (JStr ''correct'')) =
     Some (Resolved \<lparr> success = True, filterId = JStr ''StaffPolicy'', message = None \<rparr>)"
proof -
  let ?msg = "access_accept 9 (replicate 16 0) ''StaffPolicy''"
  let ?secret = "RADIUS_SECRET default_config"
  let ?resp = "projr (wire_decode ?msg ?secret)"
  have enc: "header_encode (request_packet 7 (JStr ''alice'') (JStr ''correct'')) ?secret =
               Inr ([1, 7, 0, 20] @ replicate 16 0)"
    by code_simp
  have "\<not> isl (wire_decode ?msg ?secret)"
    by code_simp
  then have dec: "wire_decode ?msg ?secret = Inr ?resp"
    by simp
  have ident: "response_identifier ?resp \<noteq> 7"
    by code_simp
  have acc: "response_code ?resp = ''Access-Accept''"
    by code_simp
  have fid: "extract_filterId ?resp = JStr ''StaffPolicy''"
    by code_simp
  show ?thesis
    using foreign_identifier_is_paired [where encode = header_encode and decode = wire_decode,
            OF enc dec ident, of 1 "[]"] ident acc fid
    by simp
qed

text \<open>
  C1 as stated fails: the request carries identifier 7, byte 1 of the datagram is 9, and
  the attempt is fulfilled as accepted.
\<close>

theorem foreign_identifier_counterexample:
  "map_option packet_identifier (request (start header_encode default_config 7 None
       (JStr ''alice'') (JStr ''correct''))) = Some 7 \<and>
   access_accept 9 (replicate 16 0) ''StaffPolicy'' ! 1 = 9 \<and>
   settled (authenticateWithRadius header_encode wire_decode default_config
       \<lparr> random_identifier = 7, send_throws = None,
         events = [SendDone None, Message (access_accept 9 (replicate 16 0) ''StaffPolicy'')] \<rparr>
       (JStr ''alice'') (JStr ''correct'')) =
     Some (Resolved \<lparr> success = True, filterId = JStr ''StaffPolicy'', message = None \<rparr>)"
  by code_simp

subsection \<open>C2: the response authenticator\<close>

text \<open>
  Two datagrams that differ only in their authenticator field have the same recomputed
  authenticator, whatever the digest, so at most one of them matches; the decoder for
  concrete runs accepts both.
\<close>

lemma accept_pair_mismatch:
  "\<not> (authenticator_matches digest secret req_auth (access_accept i (replicate 16 0) fid) \<and>
      authenticator_matches digest secret req_auth (access_accept i (replicate 16 1) fid))"
proof -
  have "recomputed_authenticator digest secret req_auth (access_accept i (replicate 16 0) fid) =
        recomputed_authenticator digest secret req_auth (access_accept i (replicate 16 1) fid)"
    by (simp add: recomputed_authenticator_def access_accept_def)
  moreover have "take 16 (drop 4 (access_accept i (replicate 16 0) fid)) \<noteq>
                 take 16 (drop 4 (access_accept i (replicate 16 1) fid))"
    by (simp add: access_accept_def)
  ultimately show ?thesis
    by (auto simp: authenticator_matches_def)
qed

lemma accepted_run:
  "settled (authenticateWithRadius header_encode wire_decode default_config
       \<lparr> random_identifier = 7, send_throws = None,
         events = [Message (access_accept 7 (replicate 16 0) ''StaffPolicy'')] \<rparr>
       (JStr ''alice'') (JStr ''correct'')) =
     Some (Resolved \<lparr> success = True, filterId = JStr ''StaffPolicy'', message = None \<rparr>)"
  "settled (authenticateWithRadius header_encode wire_decode default_config
       \<lparr> random_identifier = 7, send_throws = None,
         events = [Message (access_accept 7 (replicate 16 1) ''StaffPolicy'')] \<rparr>
       (JStr ''alice'') (JStr ''correct'')) =
     Some (Resolved \<lparr> success = True, filterId = JStr ''StaffPolicy'', message = None \<rparr>)"
  by code_simp+

text \<open>
  C2, as the code has it. The handler hands the decoder the datagram and the secret; the
  request authenticator is never passed on, and the handler makes no check of its own.
  So whether the authenticator of a response matches the value recomputed from the
  response, the request authenticator and the secret has no effect: the attempt is
  rejected with ``Failed to process authentication response'' exactly when the decoder
  throws on the datagram and the secret, and otherwise it is fulfilled from the decoded
  code and attributes, also when the authenticator does not match.
\<close>

theorem authenticator_is_not_verified:
  assumes "encode (request_packet ident u p) (RADIUS_SECRET cfg) = Inr encoded"
    and "\<not> authenticator_matches digest (RADIUS_SECRET cfg) (request_authenticator encoded) msg"
  shows "settled (authenticateWithRadius encode decode cfg
            \<lparr> random_identifier = ident, send_throws = None,
              events = replicate n (SendDone None) @ Message msg # evs \<rparr> u p) =
     Some (case decode msg (RADIUS_SECRET cfg) of
             Inl err \<Rightarrow> Rejected (''Failed to process authentication response: '' @ err)
           | Inr resp \<Rightarrow>
               Resolved (if response_code resp = ''Access-Accept''
                 then \<lparr> success = True, filterId = extract_filterId resp, message = None \<rparr>
                 else \<lparr> success = False, filterId = Undefined,
                        message = Some ''Authentication failed. Please check your credentials.'' \<rparr>))"
  using assms(1)
  by (subst attempt_first_message [where encoded = encoded and n = n and msg = msg and evs = evs])
     simp_all

text \<open>
  An instance for every digest: of two Access-Accepts that differ in the authenticator
  field, one does not match, and the attempt that receives it is fulfilled as accepted.
\<close>

theorem authenticator_is_not_verified_witness:
  "\<forall>digest.
     (\<not> authenticator_matches digest (RADIUS_SECRET default_config)
          (request_authenticator ([1, 7, 0, 20] @ replicate 16 0))
          (access_accept 7 (replicate 16 0) ''StaffPolicy'') \<and>
      settled (authenticateWithRadius header_encode wire_decode default_config
          \<lparr> random_identifier = 7, send_throws = None,
            events = [Message (access_accept 7 (replicate 16 0) ''StaffPolicy'')] \<rparr>
          (JStr ''alice'') (JStr ''correct'')) =
        Some (Resolved \<lparr> success = True, filterId = JStr ''StaffPolicy'', message = None \<rparr>)) \<or>
     (\<not> authenticator_matches digest (RADIUS_SECRET default_config)
          (request_authenticator ([1, 7, 0, 20] @ replicate 16 0))
          (access_accept 7 (replicate 16 1) ''StaffPolicy'') \<and>
      settled (authenticateWithRadius header_encode wire_decode default_config
          \<lparr> random_identifier = 7, send_throws = None,
            events = [Message (access_accept 7 (replicate 16 1) ''StaffPolicy'')] \<rparr>
          (JStr ''alice'') (JStr ''correct'')) =
        Some (Resolved \<lparr> success = True, filterId = JStr ''StaffPolicy'', message = None \<rparr>))"
proof
  fix digest
  let ?s = "RADIUS_SECRET default_config"
  let ?enc = "[1, 7, 0, 20] @ replicate 16 (0 :: byte)"
  let ?A = "access_accept 7 (replicate 16 0) ''StaffPolicy''"
  let ?B = "access_accept 7 (replicate 16 1) ''StaffPolicy''"
  let ?ok = "Resolved \<lparr> success = True, filterId = JStr ''StaffPolicy'', message = None \<rparr>"
  have enc: "header_encode (request_packet 7 (JStr ''alice'') (JStr ''correct'')) ?s = Inr ?enc"
    by code_simp
  have outA: "(case wire_decode ?A ?s of
                 Inl err \<Rightarrow> Rejected (''Failed to process authentication response: '' @ err)
               | Inr resp \<Rightarrow>
                   Resolved (if response_code resp = ''Access-Accept''
                     then \<lparr> success = True, filterId = extract_filterId resp, message = None \<rparr>
                     else \<lparr> success = False, filterId = Undefined,
                            message = Some ''Authentication failed. Please check your credentials.'' \<rparr>)) = ?ok"
    by code_simp
  have outB: "(case wire_decode ?B ?s of
                 Inl err \<Rightarrow> Rejected (''Failed to process authentication response: '' @ err)
               | Inr resp \<Rightarrow>
                   Resolved (if response_code resp = ''Access-Accept''
                     then \<lparr> success = True, filterId = extract_filterId resp, message = None \<rparr>
                     else \<lparr> success = False, filterId = Undefined,
                            message = Some ''Authentication failed. Please check your credentials.'' \<rparr>)) = ?ok"
    by code_simp
  have "\<not> authenticator_matches digest ?s (request_authenticator ?enc) ?A \<or>
        \<not> authenticator_matches digest ?s (request_authenticator ?enc) ?B"
    using accept_pair_mismatch [of digest ?s "request_authenticator ?enc" 7 "''StaffPolicy''"]
    by blast
  then show "(\<not> authenticator_matches digest ?s (request_authenticator ?enc) ?A \<and>
      settled (authenticateWithRadius header_encode wire_decode default_config
          \<lparr> random_identifier = 7, send_throws = None, events = [Message ?A] \<rparr>
          (JStr ''alice'') (JStr ''correct'')) = Some ?ok) \<or>
     (\<not> authenticator_matches digest ?s (request_authenticator ?enc) ?B \<and>
      settled (authenticateWithRadius header_encode wire_decode default_config
          \<lparr> random_identifier = 7, send_throws = None, events = [Message ?B] \<rparr>
          (JStr ''alice'') (JStr ''correct'')) = Some ?ok)"
  proof
    assume m: "\<not> authenticator_matches digest ?s (request_authenticator ?enc) ?A"
    show ?thesis
      using authenticator_is_not_verified [where encode = header_encode and decode = wire_decode
              and digest = digest, OF enc m, of 0 "[]"] m outA
      by simp
  next
    assume m: "\<not> authenticator_matches digest ?s (request_authenticator ?enc) ?B"
    show ?thesis
      using authenticator_is_not_verified [where encode = header_encode and decode = wire_decode
              and digest = digest, OF enc m, of 0 "[]"] m outB
      by simp
  qed
qed

text \<open>
  C2 as stated fails, for every digest function: not every response whose authenticator
  does not match makes the attempt fail.
\<close>

theorem authenticator_counterexample:
  "\<forall>digest. \<not> (\<forall>msg.
      \<not> authenticator_matches digest (RADIUS_SECRET default_config)
          (request_authenticator ([1, 7, 0, 20] @ replicate 16 0)) msg \<longrightarrow>
      (\<exists>e. settled (authenticateWithRadius header_encode wire_decode default_config
              \<lparr> random_identifier = 7, send_throws = None, events = [Message msg] \<rparr>
              (JStr ''alice'') (JStr ''correct'')) = Some (Rejected e)))"
proof (intro allI notI)
  fix digest
  let ?ra = "request_authenticator ([1, 7, 0, 20] @ replicate 16 0)"
  let ?s = "RADIUS_SECRET default_config"
  assume claim: "\<forall>msg.
      \<not> authenticator_matches digest ?s ?ra msg \<longrightarrow>
      (\<exists>e. settled (authenticateWithRadius header_encode wire_decode default_config
              \<lparr> random_identifier = 7, send_throws = None, events = [Message msg] \<rparr>
              (JStr ''alice'') (JStr ''correct'')) = Some (Rejected e))"
  have "\<not> authenticator_matches digest ?s ?ra (access_accept 7 (replicate 16 0) ''StaffPolicy'') \<or>
        \<not> authenticator_matches digest ?s ?ra (access_accept 7 (replicate 16 1) ''StaffPolicy'')"
    using accept_pair_mismatch [of digest ?s ?ra 7 "''StaffPolicy''"] by blast
  then show False
  proof
    assume "\<not> authenticator_matches digest ?s ?ra (access_accept 7 (replicate 16 0) ''StaffPolicy'')"
    with claim show False by (auto simp: accepted_run(1))
  next
    assume "\<not> authenticator_matches digest ?s ?ra (access_accept 7 (replicate 16 1) ''StaffPolicy'')"
    with claim show False by (auto simp: accepted_run(2))
  qed
qed

subsection \<open>C3: an attempt resolves once\<close>

text \<open>
  C3. Once the promise of an attempt is settled (a response was processed, the timer
  fired, or a transport or encoding error was reported), a later datagram, a later
  socket error and a later expiry of the timer leave the attempt exactly as it is: no
  call is made on the socket, the timer or the promise. And whatever events follow, the
  outcome of the promise stays the one it was settled with.
\<close>

theorem resolved_outcome_is_final:
  assumes "settled (authenticateWithRadius encode decode cfg w u p) = Some out"
  shows "deliver decode cfg (authenticateWithRadius encode decode cfg w u p) (Message msg) =
           authenticateWithRadius encode decode cfg w u p \<and>
         deliver decode cfg (authenticateWithRadius encode decode cfg w u p) (SocketError err) =
           authenticateWithRadius encode decode cfg w u p \<and>
         deliver decode cfg (authenticateWithRadius encode decode cfg w u p) TimerExpired =
           authenticateWithRadius encode decode cfg w u p \<and>
         settled (authenticateWithRadius encode decode cfg (w\<lparr> events := events w @ later \<rparr>) u p) =
           Some out"
proof -
  let ?st = "authenticateWithRadius encode decode cfg w u p"
  have c: "consistent ?st" by (rule consistent_attempt)
  have "authenticateWithRadius encode decode cfg (w\<lparr> events := events w @ later \<rparr>) u p =
          run decode cfg ?st later"
    by (simp add: authenticateWithRadius_def run_append)
  then show ?thesis
    using deliver_settled_noop [OF c assms] settled_run_stable [OF assms] by simp
qed

text \<open>
  An instance: the attempt timed out; an Access-Accept, a socket error, a second expiry
  and a failed send completion that arrive afterwards do not change the outcome.
\<close>

theorem resolved_outcome_is_final_witness:
  "settled (authenticateWithRadius header_encode wire_decode default_config
       \<lparr> random_identifier = 7, send_throws = None, events = [SendDone None, TimerExpired] \<rparr>
       (JStr ''alice'') (JStr ''correct'')) =
     Some (Resolved \<lparr> success = False, filterId = Undefined,
                      message = Some ''Authentication server timed out'' \<rparr>) \<and>
   settled (authenticateWithRadius header_encode wire_decode default_config
       \<lparr> random_identifier = 7, send_throws = None,
         events = [SendDone None, TimerExpired,
                   Message (access_accept 7 (replicate 16 0) ''StaffPolicy''),
                   SocketError ''ECONNREFUSED'', TimerExpired, SendDone (Some ''late'')] \<rparr>
       (JStr ''alice'') (JStr ''correct'')) =
     Some (Resolved \<lparr> success = False, filterId = Undefined,
                      message = Some ''Authentication server timed out'' \<rparr>)"
proof -
  let ?w = "\<lparr> random_identifier = 7, send_throws = None, events = [SendDone None, TimerExpired] \<rparr>"
  have s: "settled (authenticateWithRadius header_encode wire_decode default_config ?w
             (JStr ''alice'') (JStr ''correct'')) =
           Some (Resolved \<lparr> success = False, filterId = Undefined,
                            message = Some ''Authentication server timed out'' \<rparr>)"
    by code_simp
  show ?thesis
    using resolved_outcome_is_final [where encode = header_encode and decode = wire_decode
            and later = "[Message (access_accept 7 (replicate 16 0) ''StaffPolicy''),
                 SocketError ''ECONNREFUSED'', TimerExpired, SendDone (Some ''late'')]", OF s] s
    by simp
qed

subsection \<open>The handler around an attempt\<close>

lemma env_or_nonempty: "dflt \<noteq> [] \<Longrightarrow> env_or env name dflt \<noteq> []"
  by (simp add: env_or_def split: option.splits)

lemma allowed_filter_id_nonempty: "ALLOWED_FILTER_ID (load_config env) \<noteq> []"
  by (simp add: load_config_def env_or_nonempty)

lemma auth_radius_started:
  assumes "truthy (body_field body ''username'')" "truthy (body_field body ''password'')"
  shows "auth_radius encode decode cfg env w body =
     (case settled (authenticateWithRadius encode decode cfg w
               (body_field body ''username'') (body_field body ''password'')) of
        None \<Rightarrow> None
      | Some (Resolved result) \<Rightarrow> Some (respond cfg env result)
      | Some (Rejected e) \<Rightarrow> Some server_error,
      Some (authenticateWithRadius encode decode cfg w
               (body_field body ''username'') (body_field body ''password'')))"
  using assms by (simp add: auth_radius_def Let_def)

lemma auth_radius_accept:
  assumes "truthy (body_field body ''username'')" "truthy (body_field body ''password'')"
    and "encode (request_packet (random_identifier w) (body_field body ''username'')
            (body_field body ''password'')) (RADIUS_SECRET cfg) = Inr encoded"
    and "send_throws w = None"
    and "events w = replicate n (SendDone None) @ Message msg # evs"
    and "decode msg (RADIUS_SECRET cfg) = Inr resp"
    and "response_code resp = ''Access-Accept''"
  shows "fst (auth_radius encode decode cfg env w body) =
     Some (respond cfg env \<lparr> success = True, filterId = extract_filterId resp, message = None \<rparr>)"
proof -
  have "settled (authenticateWithRadius encode decode cfg w
               (body_field body ''username'') (body_field body ''password'')) =
        Some (Resolved \<lparr> success = True, filterId = extract_filterId resp, message = None \<rparr>)"
    using assms(3,4,5,6,7)
    by (subst attempt_first_message [where encoded = encoded and n = n and msg = msg and evs = evs])
       simp_all
  then show ?thesis
    by (simp add: auth_radius_started [OF assms(1,2)])
qed

text \<open>Facts about the fixtures.\<close>

lemma alice_credentials:
  "truthy (body_field alice_body ''username'')" "truthy (body_field alice_body ''password'')"
  by code_simp+

lemma alice_encoded:
  "header_encode (request_packet 7 (body_field alice_body ''username'')
       (body_field alice_body ''password'')) ''testing123'' =
     Inr ([1, 7, 0, 20] @ replicate 16 0)"
  by code_simp

lemma default_config_values:
  "ALLOWED_FILTER_ID (load_config Map.empty) = ''StaffPolicy''"
  "ACCESS_DENIED_MESSAGE (load_config Map.empty) = ''You don't belong to this SSID''"
  "RADIUS_SECRET (load_config Map.empty) = ''testing123''"
  "env_or Map.empty ''ACCESS_GRANTED_MESSAGE'' ''Access granted - Account verified'' =
     ''Access granted - Account verified''"
  by (simp_all add: load_config_def env_or_def)

subsection \<open>C4: the Filter-Id decides the authorization\<close>

text \<open>
  C4. A request with credentials whose attempt receives an Access-Accept carrying a
  Filter-Id attribute: if the Filter-Id is the configured expected value (the constant
  \<^verbatim>\<open>ALLOWED_FILTER_ID\<close>, which is never empty), the handler answers 200 with
  \<open>success = true\<close>, the Filter-Id and the grant message; with any other value it
  answers 403 with \<open>success = false\<close> and the configured deny message.
\<close>

theorem filterId_decides_authorization:
  assumes "truthy (body_field body ''username'')" "truthy (body_field body ''password'')"
    and "encode (request_packet (random_identifier w) (body_field body ''username'')
            (body_field body ''password'')) (RADIUS_SECRET (load_config env0)) = Inr encoded"
    and "send_throws w = None"
    and "events w = replicate n (SendDone None) @ Message msg # evs"
    and "decode msg (RADIUS_SECRET (load_config env0)) = Inr resp"
    and "response_code resp = ''Access-Accept''"
    and "response_attributes resp = Some attrs"
    and "attrs ''Filter-Id'' = Some v"
  shows "fst (auth_radius encode decode (load_config env0) env w body) =
     Some (if v = JStr (ALLOWED_FILTER_ID (load_config env0))
           then \<lparr> res_status = 200, res_success = True,
                  res_message = ''Authentication successful'',
                  res_filterId = Some v,
                  res_validation = Some (''success'',
                    env_or env ''ACCESS_GRANTED_MESSAGE'' ''Access granted - Account verified'') \<rparr>
           else \<lparr> res_status = 403, res_success = False,
                  res_message = ACCESS_DENIED_MESSAGE (load_config env0),
                  res_filterId = Some (if truthy v then v else Null),
                  res_validation = Some (''error'',
                    ''Access denied - '' @ ACCESS_DENIED_MESSAGE (load_config env0)) \<rparr>)"
proof -
  let ?cfg = "load_config env0"
  have ex: "extract_filterId resp = (if truthy v then v else Null)"
    using assms(8,9) by (simp add: extract_filterId_def)
  have r: "fst (auth_radius encode decode ?cfg env w body) =
     Some (respond ?cfg env \<lparr> success = True, filterId = extract_filterId resp, message = None \<rparr>)"
    using assms(1-7) by (rule auth_radius_accept)
  show ?thesis
  proof (cases "v = JStr (ALLOWED_FILTER_ID ?cfg)")
    case True
    then have "truthy v" by (simp add: allowed_filter_id_nonempty)
    with True show ?thesis by (simp add: r ex respond_def)
  next
    case False
    then have "\<not> strict_eq_string (if truthy v then v else Null) (ALLOWED_FILTER_ID ?cfg)"
      by (cases v) auto
    with False show ?thesis by (simp add: r ex respond_def)
  qed
qed

text \<open>
  The scenarios of the specification: Filter-Id ``StaffPolicy'' gives 200, Filter-Id
  ``GuestPolicy'' gives 403.
\<close>

theorem filterId_decides_authorization_witness:
  "fst (auth_radius header_encode wire_decode (load_config Map.empty) Map.empty
          \<lparr> random_identifier = 7, send_throws = None,
            events = [SendDone None,
                      Message (access_accept 7 (replicate 16 0) ''StaffPolicy'')] \<rparr>
          alice_body) =
     Some \<lparr> res_status = 200, res_success = True,
            res_message = ''Authentication successful'',
            res_filterId = Some (JStr ''StaffPolicy''),
            res_validation = Some (''success'', ''Access granted - Account verified'') \<rparr> \<and>
   fst (auth_radius header_encode wire_decode (load_config Map.empty) Map.empty
          \<lparr> random_identifier = 7, send_throws = None,
            events = [SendDone None,
                      Message (access_accept 7 (replicate 16 0) ''GuestPolicy'')] \<rparr>
          alice_body) =
     Some \<lparr> res_status = 403, res_success = False,
            res_message = ''You don't belong to this SSID'',
            res_filterId = Some (JStr ''GuestPolicy''),
            res_validation = Some (''error'', ''Access denied - You don't belong to this SSID'') \<rparr>"
proof -
  let ?staff = "access_accept 7 (replicate 16 0) ''StaffPolicy''"
  let ?guest = "access_accept 7 (replicate 16 0) ''GuestPolicy''"
  let ?secret = "RADIUS_SECRET (load_config Map.empty)"
  let ?rs = "projr (wire_decode ?staff ?secret)"
  let ?rg = "projr (wire_decode ?guest ?secret)"
  have "\<not> isl (wire_decode ?staff ?secret)" "\<not> isl (wire_decode ?guest ?secret)"
    by code_simp+
  then have dec: "wire_decode ?staff ?secret = Inr ?rs" "wire_decode ?guest ?secret = Inr ?rg"
    by simp_all
  have acc: "response_code ?rs = ''Access-Accept''" "response_code ?rg = ''Access-Accept''"
    by code_simp+
  have "\<not> Option.is_none (response_attributes ?rs)" "\<not> Option.is_none (response_attributes ?rg)"
    by code_simp+
  then have attrs: "response_attributes ?rs = Some (the (response_attributes ?rs))"
      "response_attributes ?rg = Some (the (response_attributes ?rg))"
    by (simp_all add: Option.is_none_def)
  have fid: "the (response_attributes ?rs) ''Filter-Id'' = Some (JStr ''StaffPolicy'')"
      "the (response_attributes ?rg) ''Filter-Id'' = Some (JStr ''GuestPolicy'')"
    by code_simp+
  have staff: "fst (auth_radius header_encode wire_decode (load_config Map.empty) Map.empty
          \<lparr> random_identifier = 7, send_throws = None,
            events = replicate 1 (SendDone None) @ Message ?staff # [] \<rparr> alice_body) =
     Some \<lparr> res_status = 200, res_success = True,
            res_message = ''Authentication successful'',
            res_filterId = Some (JStr ''StaffPolicy''),
            res_validation = Some (''success'', ''Access granted - Account verified'') \<rparr>"
    by (subst filterId_decides_authorization [where encode = header_encode
            and decode = wire_decode and resp = ?rs and n = 1 and msg = ?staff and evs = "[]"
            and v = "JStr ''StaffPolicy''", OF alice_credentials _ _ _ dec(1) acc(1) attrs(1) fid(1)])
       (simp_all add: alice_encoded default_config_values)
  have guest: "fst (auth_radius header_encode wire_decode (load_config Map.empty) Map.empty
          \<lparr> random_identifier = 7, send_throws = None,
            events = replicate 1 (SendDone None) @ Message ?guest # [] \<rparr> alice_body) =
     Some \<lparr> res_status = 403, res_success = False,
            res_message = ''You don't belong to this SSID'',
            res_filterId = Some (JStr ''GuestPolicy''),
            res_validation = Some (''error'', ''Access denied - You don't belong to this SSID'') \<rparr>"
    by (subst filterId_decides_authorization [where encode = header_encode
            and decode = wire_decode and resp = ?rg and n = 1 and msg = ?guest and evs = "[]"
            and v = "JStr ''GuestPolicy''", OF alice_credentials _ _ _ dec(2) acc(2) attrs(2) fid(2)])
       (simp_all add: alice_encoded default_config_values)
  from staff guest show ?thesis by simp
qed

subsection \<open>C5: an Access-Accept without Filter-Id\<close>

text \<open>
  C5. When the accepted response has no Filter-Id (no attribute object, or no such key),
  the attempt is fulfilled as a success with a \<^verbatim>\<open>null\<close> Filter-Id and the handler
  answers with the denial, status 403: it is not an error.
\<close>

theorem missing_filterId_is_denied:
  assumes "truthy (body_field body ''username'')" "truthy (body_field body ''password'')"
    and "encode (request_packet (random_identifier w) (body_field body ''username'')
            (body_field body ''password'')) (RADIUS_SECRET cfg) = Inr encoded"
    and "send_throws w = None"
    and "events w = replicate n (SendDone None) @ Message msg # evs"
    and "decode msg (RADIUS_SECRET cfg) = Inr resp"
    and "response_code resp = ''Access-Accept''"
    and "lacks_filterId resp"
  shows "fst (auth_radius encode decode cfg env w body) =
     Some \<lparr> res_status = 403, res_success = False,
            res_message = ACCESS_DENIED_MESSAGE cfg,
            res_filterId = Some Null,
            res_validation = Some (''error'', ''Access denied - '' @ ACCESS_DENIED_MESSAGE cfg) \<rparr>"
proof -
  have ex: "extract_filterId resp = Null"
    using assms(8) by (simp add: extract_filterId_def lacks_filterId_def split: option.splits)
  have "fst (auth_radius encode decode cfg env w body) =
     Some (respond cfg env \<lparr> success = True, filterId = extract_filterId resp, message = None \<rparr>)"
    using assms(1-7) by (rule auth_radius_accept)
  then show ?thesis by (simp add: ex respond_def)
qed

text \<open>An instance: an Access-Accept with an empty attribute list.\<close>

theorem missing_filterId_is_denied_witness:
  "lacks_filterId (projr (wire_decode (access_accept_plain 7 (replicate 16 0))
       (RADIUS_SECRET (load_config Map.empty)))) \<and>
   fst (auth_radius header_encode wire_decode (load_config Map.empty) Map.empty
          \<lparr> random_identifier = 7, send_throws = None,
            events = [SendDone None, Message (access_accept_plain 7 (replicate 16 0))] \<rparr>
          alice_body) =
     Some \<lparr> res_status = 403, res_success = False,
            res_message = ''You don't belong to this SSID'',
            res_filterId = Some Null,
            res_validation = Some (''error'', ''Access denied - You don't belong to this SSID'') \<rparr>"
proof -
  let ?msg = "access_accept_plain 7 (replicate 16 0)"
  let ?secret = "RADIUS_SECRET (load_config Map.empty)"
  let ?resp = "projr (wire_decode ?msg ?secret)"
  have "\<not> isl (wire_decode ?msg ?secret)"
    by code_simp
  then have dec: "wire_decode ?msg ?secret = Inr ?resp"
    by simp
  have acc: "response_code ?resp = ''Access-Accept''"
    by code_simp
  have lacks: "lacks_filterId ?resp"
    by code_simp
  have "fst (auth_radius header_encode wire_decode (load_config Map.empty) Map.empty
          \<lparr> random_identifier = 7, send_throws = None,
            events = replicate 1 (SendDone None) @ Message ?msg # [] \<rparr> alice_body) =
     Some \<lparr> res_status = 403, res_success = False,
            res_message = ''You don't belong to this SSID'',
            res_filterId = Some Null,
            res_validation = Some (''error'', ''Access denied - You don't belong to this SSID'') \<rparr>"
    by (subst missing_filterId_is_denied [where encode = header_encode
            and decode = wire_decode and resp = ?resp and n = 1 and msg = ?msg and evs = "[]",
            OF alice_credentials _ _ _ dec acc lacks])
       (simp_all add: alice_encoded default_config_values)
  with lacks show ?thesis by simp
qed

subsection \<open>The outcome of an attempt that was sent\<close>

lemma dropWhile_head:
  "dropWhile P xs = y # ys \<Longrightarrow> \<not> P y"
  by (metis hd_dropWhile list.distinct(1) list.sel(1))

lemma run_pending:
  assumes "consistent st" "settled st = None"
  shows "settled (run decode cfg st evs) =
     (case dropWhile (\<lambda>e. e = SendDone None) evs of
        [] \<Rightarrow> None
      | ev # rest \<Rightarrow> settled (deliver decode cfg st ev))"
proof (cases "dropWhile (\<lambda>e. e = SendDone None) evs")
  case Nil
  then have "evs = replicate (length (takeWhile (\<lambda>e. e = SendDone None) evs)) (SendDone None)"
    using events_split [of evs] unfolding Nil by simp
  then have "run decode cfg st evs = st"
    by (metis run_send_done)
  then show ?thesis unfolding Nil using assms(2) by simp
next
  case (Cons ev rest)
  then have "ev \<noteq> SendDone None"
    using dropWhile_head by fastforce
  then obtain out where out: "settled (deliver decode cfg st ev) = Some out"
    using deliver_settles [OF assms(1)] by fastforce
  have "evs = replicate (length (takeWhile (\<lambda>e. e = SendDone None) evs)) (SendDone None) @ ev # rest"
    using events_split [of evs] Cons by simp
  then have "settled (run decode cfg st evs) = Some out"
    by (metis first_event_decides out)
  with Cons out show ?thesis by simp
qed

lemma attempt_pending:
  assumes "encode (request_packet (random_identifier w) u p) (RADIUS_SECRET cfg) = Inr encoded"
    and "send_throws w = None"
  shows "settled (authenticateWithRadius encode decode cfg w u p) =
     (case dropWhile (\<lambda>e. e = SendDone None) (events w) of
        [] \<Rightarrow> None
      | ev # rest \<Rightarrow>
          settled (deliver decode cfg (start encode cfg (random_identifier w) None u p) ev))"
proof -
  have "consistent (start encode cfg (random_identifier w) None u p)"
    by (rule consistent_start)
  moreover have "settled (start encode cfg (random_identifier w) None u p) = None"
    using assms(1) by (simp add: start_pending)
  ultimately show ?thesis
    using assms(2) by (simp add: authenticateWithRadius_def run_pending)
qed

lemma attempt_not_sent:
  assumes "encode (request_packet (random_identifier w) u p) (RADIUS_SECRET cfg) = Inl err
         \<or> (\<exists>encoded err'. encode (request_packet (random_identifier w) u p) (RADIUS_SECRET cfg) = Inr encoded
              \<and> send_throws w = Some err')"
  shows "\<exists>e. settled (authenticateWithRadius encode decode cfg w u p) = Some (Rejected e)"
proof -
  have "\<exists>e. settled (start encode cfg (random_identifier w) (send_throws w) u p) = Some (Rejected e)"
    using assms by (auto simp: start_encode_fails start_send_throws)
  then show ?thesis
    by (auto simp: authenticateWithRadius_def settled_run_stable)
qed

subsection \<open>C6: the HTTP status of each outcome\<close>

text \<open>
  C6, as the code has it. The status of the response is determined as follows. Missing
  credentials: 400. Otherwise, if encoding the request fails or \<^verbatim>\<open>client.send\<close> throws,
  the promise is rejected and the \<^verbatim>\<open>catch\<close> block answers 500. Otherwise the first event
  other than a successful send completion decides: a datagram that the decoder rejects
  (decode error), a socket error and a failed send (transport errors) reject the promise
  and give 500; a decoded response with a code other than Access-Accept and the expiry
  of the timer fulfil the promise with \<open>success = false\<close> and give 401; an Access-Accept
  gives 200 when its Filter-Id is the expected one and 403 otherwise. While no such event
  has arrived, no response is sent.
\<close>

theorem status_of_each_outcome:
  "map_option res_status (fst (auth_radius encode decode cfg env w body)) =
     (let username = body_field body ''username'';
          password = body_field body ''password''
      in if \<not> truthy username \<or> \<not> truthy password then Some 400
         else
           (case encode (request_packet (random_identifier w) username password)
                   (RADIUS_SECRET cfg) of
              Inl err \<Rightarrow> Some 500
            | Inr encoded \<Rightarrow>
                (case send_throws w of
                   Some err \<Rightarrow> Some 500
                 | None \<Rightarrow>
                     (case dropWhile (\<lambda>e. e = SendDone None) (events w) of
                        [] \<Rightarrow> None
                      | Message msg # rest \<Rightarrow>
                          (case decode msg (RADIUS_SECRET cfg) of
                             Inl err \<Rightarrow> Some 500
                           | Inr resp \<Rightarrow>
                               if response_code resp = ''Access-Accept''
                               then (if strict_eq_string (extract_filterId resp) (ALLOWED_FILTER_ID cfg)
                                     then Some 200 else Some 403)
                               else Some 401)
                      | SocketError err # rest \<Rightarrow> Some 500
                      | SendDone err # rest \<Rightarrow> Some 500
                      | TimerExpired # rest \<Rightarrow> Some 401))))"
proof (cases "truthy (body_field body ''username'') \<and> truthy (body_field body ''password'')")
  case False
  then show ?thesis by (auto simp: auth_radius_def Let_def)
next
  case True
  let ?u = "body_field body ''username''" and ?p = "body_field body ''password''"
  let ?st = "start encode cfg (random_identifier w) None ?u ?p"
  have started: "map_option res_status (fst (auth_radius encode decode cfg env w body)) =
      (case settled (authenticateWithRadius encode decode cfg w ?u ?p) of
         None \<Rightarrow> None
       | Some (Resolved result) \<Rightarrow> Some (res_status (respond cfg env result))
       | Some (Rejected e) \<Rightarrow> Some 500)"
    using True by (simp add: auth_radius_started server_error_def split: option.splits outcome.splits)
  show ?thesis
  proof (cases "encode (request_packet (random_identifier w) ?u ?p) (RADIUS_SECRET cfg)")
    case (Inl err)
    then obtain e where "settled (authenticateWithRadius encode decode cfg w ?u ?p) = Some (Rejected e)"
      using attempt_not_sent [of encode w ?u ?p cfg err decode] by blast
    with True Inl show ?thesis by (simp add: started)
  next
    case (Inr encoded)
    show ?thesis
    proof (cases "send_throws w")
      case (Some err')
      then obtain e where "settled (authenticateWithRadius encode decode cfg w ?u ?p) = Some (Rejected e)"
        using Inr attempt_not_sent [of encode w ?u ?p cfg _ decode] by blast
      with True Inr Some show ?thesis by (simp add: started)
    next
      case None
      have c: "consistent ?st" by (rule consistent_start)
      have pend: "settled ?st = None" using Inr by (simp add: start_pending)
      have s: "settled (authenticateWithRadius encode decode cfg w ?u ?p) =
         (case dropWhile (\<lambda>e. e = SendDone None) (events w) of
            [] \<Rightarrow> None
          | ev # rest \<Rightarrow> settled (deliver decode cfg ?st ev))"
        using Inr None by (rule attempt_pending)
      show ?thesis
      proof (cases "dropWhile (\<lambda>e. e = SendDone None) (events w)")
        case Nil
        show ?thesis unfolding started s Nil using True Inr None by simp
      next
        case (Cons ev rest)
        then have ne: "ev \<noteq> SendDone None"
          using dropWhile_head by fastforce
        show ?thesis
        proof (cases ev)
          case (Message msg)
          with True Inr None Cons show ?thesis
            by (simp add: started s deliver_message_pending [OF c pend] respond_def
                     del: deliver.simps split: sum.splits)
        next
          case (SocketError e)
          with True Inr None Cons show ?thesis
            by (simp add: started s deliver_error_pending [OF c pend] del: deliver.simps)
        next
          case (SendDone e)
          with ne obtain e' where "e = Some e'" by (cases e) auto
          with SendDone True Inr None Cons show ?thesis
            by (simp add: started s deliver_send_failed_pending [OF pend] del: deliver.simps)
        next
          case TimerExpired
          with True Inr None Cons show ?thesis
            by (simp add: started s deliver_timer_pending [OF c pend] respond_def
                     del: deliver.simps)
        qed
      qed
    qed
  qed
qed

text \<open>
  Instances: a rejection and a timeout give 401, a failed send and an undecodable
  datagram give 500, the two Filter-Id scenarios give 403 and 200, an empty body gives
  400.
\<close>

theorem status_of_each_outcome_witness:
  "map_option res_status (fst (auth_radius header_encode wire_decode default_config Map.empty
       \<lparr> random_identifier = 7, send_throws = None,
         events = [SendDone None, Message (access_reject 7 (replicate 16 0))] \<rparr> alice_body)) =
     Some 401 \<and>
   map_option res_status (fst (auth_radius header_encode wire_decode default_config Map.empty
       \<lparr> random_identifier = 7, send_throws = None,
         events = [SendDone None, TimerExpired] \<rparr> alice_body)) = Some 401 \<and>
   map_option res_status (fst (auth_radius header_encode wire_decode default_config Map.empty
       \<lparr> random_identifier = 7, send_throws = None,
         events = [SendDone (Some ''ENETUNREACH'')] \<rparr> alice_body)) = Some 500 \<and>
   map_option res_status (fst (auth_radius header_encode wire_decode default_config Map.empty
       \<lparr> random_identifier = 7, send_throws = None,
         events = [SendDone None, Message [2, 7, 0]] \<rparr> alice_body)) = Some 500 \<and>
   map_option res_status (fst (auth_radius header_encode wire_decode default_config Map.empty
       \<lparr> random_identifier = 7, send_throws = None,
         events = [SendDone None, Message (access_accept 7 (replicate 16 0) ''GuestPolicy'')] \<rparr>
       alice_body)) = Some 403 \<and>
   map_option res_status (fst (auth_radius header_encode wire_decode default_config Map.empty
       \<lparr> random_identifier = 7, send_throws = None,
         events = [SendDone None, Message (access_accept 7 (replicate 16 0) ''StaffPolicy'')] \<rparr>
       alice_body)) = Some 200 \<and>
   map_option res_status (fst (auth_radius header_encode wire_decode default_config Map.empty
       \<lparr> random_identifier = 7, send_throws = None, events = [] \<rparr> Map.empty)) = Some 400"
proof (intro conjI)
  show "map_option res_status (fst (auth_radius header_encode wire_decode default_config Map.empty
       \<lparr> random_identifier = 7, send_throws = None,
         events = [SendDone None, Message (access_reject 7 (replicate 16 0))] \<rparr> alice_body)) =
     Some 401"
    by (subst status_of_each_outcome) code_simp
  show "map_option res_status (fst (auth_radius header_encode wire_decode default_config Map.empty
       \<lparr> random_identifier = 7, send_throws = None,
         events = [SendDone None, TimerExpired] \<rparr> alice_body)) = Some 401"
    by (subst status_of_each_outcome) code_simp
  show "map_option res_status (fst (auth_radius header_encode wire_decode default_config Map.empty
       \<lparr> random_identifier = 7, send_throws = None,
         events = [SendDone (Some ''ENETUNREACH'')] \<rparr> alice_body)) = Some 500"
    by (subst status_of_each_outcome) code_simp
  show "map_option res_status (fst (auth_radius header_encode wire_decode default_config Map.empty
       \<lparr> random_identifier = 7, send_throws = None,
         events = [SendDone None, Message [2, 7, 0]] \<rparr> alice_body)) = Some 500"
    by (subst status_of_each_outcome) code_simp
  show "map_option res_status (fst (auth_radius header_encode wire_decode default_config Map.empty
       \<lparr> random_identifier = 7, send_throws = None,
         events = [SendDone None, Message (access_accept 7 (replicate 16 0) ''GuestPolicy'')] \<rparr>
       alice_body)) = Some 403"
    by (subst status_of_each_outcome) code_simp
  show "map_option res_status (fst (auth_radius header_encode wire_decode default_config Map.empty
       \<lparr> random_identifier = 7, send_throws = None,
         events = [SendDone None, Message (access_accept 7 (replicate 16 0) ''StaffPolicy'')] \<rparr>
       alice_body)) = Some 200"
    by (subst status_of_each_outcome) code_simp
  show "map_option res_status (fst (auth_radius header_encode wire_decode default_config Map.empty
       \<lparr> random_identifier = 7, send_throws = None, events = [] \<rparr> Map.empty)) = Some 400"
    by (subst status_of_each_outcome) code_simp
qed

text \<open>
  C6 as stated fails for the decode error and the transport errors: the attempt that
  receives a truncated datagram ends with a rejected promise and the handler answers
  500, not 401; so do a failed send and a socket error.
\<close>

theorem error_status_counterexample:
  "auth_radius header_encode wire_decode default_config Map.empty
       \<lparr> random_identifier = 7, send_throws = None,
         events = [SendDone None, Message [2, 7, 0]] \<rparr> alice_body =
     (Some \<lparr> res_status = 500, res_success = False,
             res_message = ''Server error during authentication'',
             res_filterId = None, res_validation = None \<rparr>,
      Some \<lparr> clientClosed = True, timeoutId = False, timer_pending = False, listening = False,
             settled = Some (Rejected ''Failed to process authentication response: MalformedPacket''),
             request = Some (request_packet 7 (JStr ''alice'') (JStr ''correct'')),
             effects = [CreateSocket,
                        Send ([1, 7, 0, 20] @ replicate 16 0) (Some 1812) ''192.168.1.108'',
                        SetTimeout 10000, ClearTimeout, RemoveAllListeners, Close,
                        CallReject ''Failed to process authentication response: MalformedPacket''] \<rparr>) \<and>
   map_option res_status (fst (auth_radius header_encode wire_decode default_config Map.empty
       \<lparr> random_identifier = 7, send_throws = None,
         events = [SendDone (Some ''ENETUNREACH'')] \<rparr> alice_body)) = Some 500 \<and>
   map_option res_status (fst (auth_radius header_encode wire_decode default_config Map.empty
       \<lparr> random_identifier = 7, send_throws = None,
         events = [SocketError ''EACCES''] \<rparr> alice_body)) = Some 500"
  by code_simp

subsection \<open>The trace of effects and the socket\<close>

lemma effects_deliver:
  "\<exists>xs. effects (deliver decode cfg st ev) = effects st @ xs"
  by (cases ev)
     (auto simp: handler_defs Let_def split: sum.splits option.splits)

lemma effects_run:
  "\<exists>xs. effects (run decode cfg st evs) = effects st @ xs"
proof (induction evs arbitrary: st)
  case Nil
  then show ?case by (simp add: run_def)
next
  case (Cons ev evs)
  obtain xs where xs: "effects (deliver decode cfg st ev) = effects st @ xs"
    using effects_deliver by blast
  obtain ys where "effects (run decode cfg (deliver decode cfg st ev) evs) =
                     effects (deliver decode cfg st ev) @ ys"
    using Cons.IH by blast
  with xs show ?case by (simp add: run_Cons)
qed

lemma settled_closed_once:
  assumes "consistent st" "settled st = Some out"
  shows "clientClosed st" "sockets_closed st = 1"
  using assms by (simp_all add: consistent_def)

lemma pending_not_closed:
  assumes "consistent st" "settled st = None"
  shows "\<not> clientClosed st" "sockets_closed st = 0"
  using assms by (simp_all add: consistent_def)

lemma only_send_done:
  "set pre \<subseteq> {SendDone None} \<Longrightarrow> pre = replicate (length pre) (SendDone None)"
  by (induction pre) auto

lemma sockets_opened_start:
  "sockets_opened (start encode cfg ident thrown u p) = 1"
  by (simp add: start_def Let_def sockets_opened_def handler_defs
           split: sum.splits option.splits)

lemma sends_start:
  "sends (start encode cfg ident thrown u p) =
     (case encode (request_packet ident u p) (RADIUS_SECRET cfg) of
        Inl err \<Rightarrow> 0
      | Inr encoded \<Rightarrow> (case thrown of None \<Rightarrow> 1 | Some err \<Rightarrow> 0))"
  by (simp add: start_def Let_def sends_def handler_defs split: sum.splits option.splits)

subsection \<open>C7: the timeout\<close>

text \<open>
  C7, as the code has it. The attempt that was sent arms one timer of 10000 ms. Once the
  timer has expired the attempt is never pending: the promise is settled, the handler
  has answered and the socket has been closed exactly once, whatever arrived before or
  arrives after. If nothing arrived before the expiry but successful send completions,
  the attempt is fulfilled with \<open>success = false\<close> and the message ``Authentication
  server timed out'', and the handler answers 401 with that message. (A datagram, valid
  or not, a socket error or a failed send that arrives first ends the attempt at once
  with its own outcome and clears the timer.)
\<close>

theorem timer_expiry_resolves_attempt:
  assumes "truthy (body_field body ''username'')" "truthy (body_field body ''password'')"
    and "encode (request_packet (random_identifier w) (body_field body ''username'')
            (body_field body ''password'')) (RADIUS_SECRET cfg) = Inr encoded"
    and "send_throws w = None"
    and "events w = pre @ TimerExpired # rest"
  shows "fst (auth_radius encode decode cfg env w body) \<noteq> None \<and>
         SetTimeout 10000 \<in> set (effects (authenticateWithRadius encode decode cfg w
             (body_field body ''username'') (body_field body ''password''))) \<and>
         clientClosed (authenticateWithRadius encode decode cfg w
             (body_field body ''username'') (body_field body ''password'')) \<and>
         sockets_closed (authenticateWithRadius encode decode cfg w
             (body_field body ''username'') (body_field body ''password'')) = 1 \<and>
         (set pre \<subseteq> {SendDone None} \<longrightarrow>
            settled (authenticateWithRadius encode decode cfg w
              (body_field body ''username'') (body_field body ''password'')) =
              Some (Resolved \<lparr> success = False, filterId = Undefined,
                               message = Some ''Authentication server timed out'' \<rparr>) \<and>
            fst (auth_radius encode decode cfg env w body) =
              Some \<lparr> res_status = 401, res_success = False,
                     res_message = ''Authentication server timed out'',
                     res_filterId = None, res_validation = None \<rparr>)"
proof -
  let ?u = "body_field body ''username''" and ?p = "body_field body ''password''"
  let ?init = "start encode cfg (random_identifier w) None ?u ?p"
  let ?st = "authenticateWithRadius encode decode cfg w ?u ?p"
  let ?mid = "run decode cfg ?init pre"
  have st: "?st = run decode cfg (deliver decode cfg ?mid TimerExpired) rest"
    using assms(4,5) by (simp add: authenticateWithRadius_def run_append run_Cons)
  have c0: "consistent ?init" by (rule consistent_start)
  have p0: "settled ?init = None" using assms(3) by (simp add: start_pending)
  have "consistent ?mid" using c0 by (rule consistent_run)
  then have "settled (deliver decode cfg ?mid TimerExpired) \<noteq> None"
    by (rule deliver_settles) simp
  then obtain out where "settled (deliver decode cfg ?mid TimerExpired) = Some out"
    by blast
  then have out: "settled ?st = Some out"
    unfolding st by (rule settled_run_stable)
  have c: "consistent ?st" by (rule consistent_attempt)
  have answered: "fst (auth_radius encode decode cfg env w body) \<noteq> None"
    using out by (simp add: auth_radius_started [OF assms(1,2)] split: outcome.splits)
  obtain xs where "effects ?st = effects ?init @ xs"
    using effects_run [of decode cfg ?init "events w"] assms(4)
    by (auto simp: authenticateWithRadius_def)
  then have timer: "SetTimeout 10000 \<in> set (effects ?st)"
    using assms(3) by (simp add: start_sent REQUEST_TIMEOUT_MS_def)
  have timed_out: "settled ?st =
              Some (Resolved \<lparr> success = False, filterId = Undefined,
                               message = Some ''Authentication server timed out'' \<rparr>) \<and>
            fst (auth_radius encode decode cfg env w body) =
              Some \<lparr> res_status = 401, res_success = False,
                     res_message = ''Authentication server timed out'',
                     res_filterId = None, res_validation = None \<rparr>"
    if "set pre \<subseteq> {SendDone None}"
  proof -
    have "?mid = ?init"
      using only_send_done [OF that] by (metis run_send_done)
    then have "settled (deliver decode cfg ?mid TimerExpired) =
        Some (Resolved \<lparr> success = False, filterId = Undefined,
                         message = Some ''Authentication server timed out'' \<rparr>)"
      using deliver_timer_pending [OF c0 p0] by simp
    then have s: "settled ?st =
        Some (Resolved \<lparr> success = False, filterId = Undefined,
                         message = Some ''Authentication server timed out'' \<rparr>)"
      unfolding st by (rule settled_run_stable)
    then show ?thesis
      by (simp add: auth_radius_started [OF assms(1,2)] respond_def)
  qed
  show ?thesis
    using answered timer settled_closed_once [OF c out] timed_out by blast
qed

text \<open>
  An instance: the send completes, the timer expires, and an Access-Accept arrives too
  late.
\<close>

theorem timer_expiry_resolves_attempt_witness:
  "set [SendDone None] \<subseteq> {SendDone None} \<and>
   auth_radius header_encode wire_decode default_config Map.empty
       \<lparr> random_identifier = 7, send_throws = None,
         events = [SendDone None] @ TimerExpired #
                  [Message (access_accept 7 (replicate 16 0) ''StaffPolicy'')] \<rparr> alice_body =
     (Some \<lparr> res_status = 401, res_success = False,
             res_message = ''Authentication server timed out'',
             res_filterId = None, res_validation = None \<rparr>,
      Some (authenticateWithRadius header_encode wire_decode default_config
         \<lparr> random_identifier = 7, send_throws = None,
           events = [SendDone None] @ TimerExpired #
                    [Message (access_accept 7 (replicate 16 0) ''StaffPolicy'')] \<rparr>
         (JStr ''alice'') (JStr ''correct''))) \<and>
   sockets_closed (authenticateWithRadius header_encode wire_decode default_config
         \<lparr> random_identifier = 7, send_throws = None,
           events = [SendDone None] @ TimerExpired #
                    [Message (access_accept 7 (replicate 16 0) ''StaffPolicy'')] \<rparr>
         (JStr ''alice'') (JStr ''correct'')) = 1"
proof -
  let ?w = "\<lparr> random_identifier = 7, send_throws = None,
         events = [SendDone None] @ TimerExpired #
                  [Message (access_accept 7 (replicate 16 0) ''StaffPolicy'')] \<rparr>"
  have u: "body_field alice_body ''username'' = JStr ''alice''"
    and p: "body_field alice_body ''password'' = JStr ''correct''"
    by (simp_all add: body_field_def alice_body_def)
  have enc: "header_encode (request_packet (random_identifier ?w) (body_field alice_body ''username'')
            (body_field alice_body ''password'')) (RADIUS_SECRET default_config) =
            Inr ([1, 7, 0, 20] @ replicate 16 0)"
    by code_simp
  have thr: "send_throws ?w = None" by simp
  have evs: "events ?w = [SendDone None] @ TimerExpired #
                  [Message (access_accept 7 (replicate 16 0) ''StaffPolicy'')]" by simp
  have sub: "set [SendDone None] \<subseteq> {SendDone None}" by simp
  have started: "snd (auth_radius header_encode wire_decode default_config Map.empty ?w alice_body) =
      Some (authenticateWithRadius header_encode wire_decode default_config ?w
              (body_field alice_body ''username'') (body_field alice_body ''password''))"
    by (simp add: auth_radius_started [OF alice_credentials])
  show ?thesis
    using timer_expiry_resolves_attempt [where encode = header_encode and decode = wire_decode
            and env = Map.empty, OF alice_credentials enc thr evs] sub started
    by (simp add: u p prod_eq_iff)
qed

text \<open>
  C7 as stated fails: in this attempt no valid response ever arrives (the only datagram
  is truncated and the decoder rejects it), yet the attempt does not resolve to the
  timeout outcome: the datagram rejects the promise and clears the timer, and the
  handler answers 500.
\<close>

theorem timeout_counterexample:
  "wire_decode [2, 7, 0] (RADIUS_SECRET default_config) = Inl ''MalformedPacket'' \<and>
   auth_radius header_encode wire_decode default_config Map.empty
       \<lparr> random_identifier = 7, send_throws = None,
         events = [SendDone None, Message [2, 7, 0], TimerExpired] \<rparr> alice_body =
     (Some \<lparr> res_status = 500, res_success = False,
             res_message = ''Server error during authentication'',
             res_filterId = None, res_validation = None \<rparr>,
      Some \<lparr> clientClosed = True, timeoutId = False, timer_pending = False, listening = False,
             settled = Some (Rejected ''Failed to process authentication response: MalformedPacket''),
             request = Some (request_packet 7 (JStr ''alice'') (JStr ''correct'')),
             effects = [CreateSocket,
                        Send ([1, 7, 0, 20] @ replicate 16 0) (Some 1812) ''192.168.1.108'',
                        SetTimeout 10000, ClearTimeout, RemoveAllListeners, Close,
                        CallReject ''Failed to process authentication response: MalformedPacket''] \<rparr>)"
proof (rule conjI)
  show "wire_decode [2, 7, 0] (RADIUS_SECRET default_config) = Inl ''MalformedPacket''"
    by (simp add: wire_decode_def)
qed code_simp

subsection \<open>C8: one socket, one send, one close\<close>

text \<open>
  C8, as the code has it. Every attempt creates exactly one socket. It sends exactly one
  datagram when the request could be encoded and \<^verbatim>\<open>client.send\<close> did not throw, and
  none otherwise. The socket is closed exactly once as soon as the promise is settled,
  on every path, and is open while the attempt is pending; the attempt is pending only
  while the request was sent and nothing but successful send completions have arrived.
\<close>

theorem one_socket_at_most_one_send:
  "sockets_opened (authenticateWithRadius encode decode cfg w u p) = 1 \<and>
   sends (authenticateWithRadius encode decode cfg w u p) =
     (case encode (request_packet (random_identifier w) u p) (RADIUS_SECRET cfg) of
        Inl err \<Rightarrow> 0
      | Inr encoded \<Rightarrow> (case send_throws w of None \<Rightarrow> 1 | Some err \<Rightarrow> 0)) \<and>
   sockets_closed (authenticateWithRadius encode decode cfg w u p) =
     (case settled (authenticateWithRadius encode decode cfg w u p) of
        None \<Rightarrow> 0
      | Some out \<Rightarrow> 1) \<and>
   (settled (authenticateWithRadius encode decode cfg w u p) = None) =
     (case encode (request_packet (random_identifier w) u p) (RADIUS_SECRET cfg) of
        Inl err \<Rightarrow> False
      | Inr encoded \<Rightarrow>
          (case send_throws w of
             None \<Rightarrow> dropWhile (\<lambda>e. e = SendDone None) (events w) = []
           | Some err \<Rightarrow> False))"
proof -
  let ?st = "authenticateWithRadius encode decode cfg w u p"
  have c: "consistent ?st" by (rule consistent_attempt)
  have opened: "sockets_opened ?st = 1"
    by (simp add: authenticateWithRadius_def sockets_opened_run sockets_opened_start)
  have sent: "sends ?st =
     (case encode (request_packet (random_identifier w) u p) (RADIUS_SECRET cfg) of
        Inl err \<Rightarrow> 0
      | Inr encoded \<Rightarrow> (case send_throws w of None \<Rightarrow> 1 | Some err \<Rightarrow> 0))"
    by (simp add: authenticateWithRadius_def sends_run sends_start)
  have closed: "sockets_closed ?st = (case settled ?st of None \<Rightarrow> 0 | Some out \<Rightarrow> 1)"
    using settled_closed_once(2) [OF c] pending_not_closed(2) [OF c]
    by (cases "settled ?st") simp_all
  have pending: "(settled ?st = None) =
     (case encode (request_packet (random_identifier w) u p) (RADIUS_SECRET cfg) of
        Inl err \<Rightarrow> False
      | Inr encoded \<Rightarrow>
          (case send_throws w of
             None \<Rightarrow> dropWhile (\<lambda>e. e = SendDone None) (events w) = []
           | Some err \<Rightarrow> False))"
  proof (cases "encode (request_packet (random_identifier w) u p) (RADIUS_SECRET cfg)")
    case (Inl err)
    then obtain e where "settled ?st = Some (Rejected e)"
      using attempt_not_sent [of encode w u p cfg err decode] by blast
    with Inl show ?thesis by simp
  next
    case (Inr encoded)
    show ?thesis
    proof (cases "send_throws w")
      case (Some err')
      then obtain e where "settled ?st = Some (Rejected e)"
        using Inr attempt_not_sent [of encode w u p cfg _ decode] by blast
      with Inr Some show ?thesis by simp
    next
      case None
      let ?init = "start encode cfg (random_identifier w) None u p"
      have s: "settled ?st =
         (case dropWhile (\<lambda>e. e = SendDone None) (events w) of
            [] \<Rightarrow> None
          | ev # rest \<Rightarrow> settled (deliver decode cfg ?init ev))"
        using Inr None by (rule attempt_pending)
      show ?thesis
      proof (cases "dropWhile (\<lambda>e. e = SendDone None) (events w)")
        case Nil
        show ?thesis unfolding s Nil using Inr None by simp
      next
        case (Cons ev rest)
        then have "ev \<noteq> SendDone None"
          using dropWhile_head by fastforce
        then have "settled (deliver decode cfg ?init ev) \<noteq> None"
          using deliver_settles [OF consistent_start] by blast
        then show ?thesis unfolding s Cons using Inr None by simp
      qed
    qed
  qed
  from opened sent closed pending show ?thesis by blast
qed

text \<open>An instance: a rejected login; one socket, one send, one close.\<close>

theorem one_socket_at_most_one_send_witness:
  "sockets_opened (authenticateWithRadius header_encode wire_decode default_config
       \<lparr> random_identifier = 7, send_throws = None,
         events = [SendDone None, Message (access_reject 7 (replicate 16 0))] \<rparr>
       (JStr ''alice'') (JStr ''correct'')) = 1 \<and>
   sends (authenticateWithRadius header_encode wire_decode default_config
       \<lparr> random_identifier = 7, send_throws = None,
         events = [SendDone None, Message (access_reject 7 (replicate 16 0))] \<rparr>
       (JStr ''alice'') (JStr ''correct'')) = 1 \<and>
   sockets_closed (authenticateWithRadius header_encode wire_decode default_config
       \<lparr> random_identifier = 7, send_throws = None,
         events = [SendDone None, Message (access_reject 7 (replicate 16 0))] \<rparr>
       (JStr ''alice'') (JStr ''correct'')) = 1"
proof -
  let ?w = "\<lparr> random_identifier = 7, send_throws = None,
         events = [SendDone None, Message (access_reject 7 (replicate 16 0))] \<rparr>"
  have enc: "header_encode (request_packet 7 (JStr ''alice'') (JStr ''correct''))
               (RADIUS_SECRET default_config) = Inr ([1, 7, 0, 20] @ replicate 16 0)"
    by code_simp
  have out: "settled (authenticateWithRadius header_encode wire_decode default_config ?w
               (JStr ''alice'') (JStr ''correct'')) =
             Some (Resolved \<lparr> success = False, filterId = Undefined,
               message = Some ''Authentication failed. Please check your credentials.'' \<rparr>)"
    by code_simp
  show ?thesis
    using one_socket_at_most_one_send [where encode = header_encode and decode = wire_decode
            and cfg = default_config and w = ?w and u = "JStr ''alice''" and p = "JStr ''correct''"]
    by (simp add: enc out)
qed

text \<open>
  C8 as stated fails on the encoding failure that it names: with a username of 254
  characters the encoder fails, the socket is created and closed, and nothing is sent.
\<close>

theorem no_send_counterexample:
  "authenticateWithRadius header_encode wire_decode default_config
       \<lparr> random_identifier = 7, send_throws = None, events = [] \<rparr>
       (JStr (replicate 254 CHR ''a'')) (JStr ''correct'') =
     \<lparr> clientClosed = True, timeoutId = False, timer_pending = False, listening = False,
       settled = Some (Rejected ''Failed to create authentication request: EncodeError''),
       request = Some (request_packet 7 (JStr (replicate 254 CHR ''a'')) (JStr ''correct'')),
       effects = [CreateSocket, RemoveAllListeners, Close,
                  CallReject ''Failed to create authentication request: EncodeError''] \<rparr> \<and>
   sends (authenticateWithRadius header_encode wire_decode default_config
       \<lparr> random_identifier = 7, send_throws = None, events = [] \<rparr>
       (JStr (replicate 254 CHR ''a'')) (JStr ''correct'')) = 0"
  by code_simp

subsection \<open>C9: when the configuration is read\<close>

text \<open>
  The traced variants compute the configuration and the responses of the code they
  trace; the module load reads six variables, and the lines that build the response
  read one exactly when they answer 200.
\<close>

lemma load_config_traced_config:
  "fst (load_config_traced env) = load_config env"
  by (simp add: load_config_traced_def load_config_def env_or_traced_def)


lemma respond_traced_response:
  "fst (respond_traced cfg env result) = respond cfg env result"
  by (simp add: respond_traced_def respond_def env_or_traced_def)




subsection \<open>C10: missing credentials\<close>

text \<open>
  C10. When the username or the password of the body is falsy (absent, \<^verbatim>\<open>null\<close>, the
  empty string, \<^verbatim>\<open>0\<close>, \<^verbatim>\<open>false\<close>), the handler answers 400 with \<open>success = false\<close> and
  the message ``Username and password are required'', and no attempt is started: there
  is no socket, no packet and no timer.
\<close>

theorem missing_credentials_give_400:
  assumes "\<not> truthy (body_field body ''username'') \<or> \<not> truthy (body_field body ''password'')"
  shows "auth_radius encode decode cfg env w body =
     (Some \<lparr> res_status = 400, res_success = False,
             res_message = ''Username and password are required'',
             res_filterId = None, res_validation = None \<rparr>, None)"
  using assms by (auto simp: auth_radius_def Let_def)

text \<open>Instances: an empty password, and a body without username.\<close>

theorem missing_credentials_give_400_witness:
  "\<not> truthy (body_field (alice_body(''password'' \<mapsto> JStr [])) ''password'') \<and>
   auth_radius header_encode wire_decode (load_config Map.empty) Map.empty
       \<lparr> random_identifier = 7, send_throws = None,
         events = [SendDone None, Message (access_accept 7 (replicate 16 0) ''StaffPolicy'')] \<rparr>
       (alice_body(''password'' \<mapsto> JStr [])) =
     (Some \<lparr> res_status = 400, res_success = False,
             res_message = ''Username and password are required'',
             res_filterId = None, res_validation = None \<rparr>, None) \<and>
   \<not> truthy (body_field (Map.empty(''password'' \<mapsto> JStr ''correct'')) ''username'') \<and>
   auth_radius header_encode wire_decode (load_config Map.empty) Map.empty
       \<lparr> random_identifier = 7, send_throws = None, events = [] \<rparr>
       (Map.empty(''password'' \<mapsto> JStr ''correct'')) =
     (Some \<lparr> res_status = 400, res_success = False,
             res_message = ''Username and password are required'',
             res_filterId = None, res_validation = None \<rparr>, None)"
proof -
  have a: "\<not> truthy (body_field (alice_body(''password'' \<mapsto> JStr [])) ''password'')"
    by (simp add: body_field_def)
  have b: "\<not> truthy (body_field (Map.empty(''password'' \<mapsto> JStr ''correct'')) ''username'')"
    by (simp add: body_field_def)
  show ?thesis
    using a b
      missing_credentials_give_400 [where encode = header_encode and decode = wire_decode
        and body = "alice_body(''password'' \<mapsto> JStr [])", OF disjI2, OF a]
      missing_credentials_give_400 [where encode = header_encode and decode = wire_decode
        and body = "Map.empty(''password'' \<mapsto> JStr ''correct'')", OF disjI1, OF b]
    by simp
qed

end
